theory Spec2Isabelle
  imports Complex_Main
begin

section \<open>The store\<close>

text \<open>
  The backend keeps its data in six tables reached through a database client: warehouses,
  products, formula rows, alert rules, the inventory (one balance row per warehouse and
  product) and the inventory transactions (the ledger). The handlers in
  \<^verbatim>\<open>index.js\<close> read and write these tables one call after the other; the model passes
  the store through each call in the same order.

  Modelling decisions.
  \<^item> Quantities are JavaScript numbers in the source. They are modelled as exact
    rationals, so \<open>+\<close>, \<open>*\<close> and \<open><\<close> carry no rounding. Counts, container sizes and
    liters are integers (the request schema admits only integers there) and are
    embedded with \<open>of_int\<close> where they meet a quantity.
  \<^item> Row identifiers are natural numbers. The schema file is not among the sources; the
    handlers only ever compare identifiers and test one for truthiness.
  \<^item> Tables the handlers search by a unique key are lists of rows searched with
    \<open>find\<close>; the inventory, addressed only by its compound key, is a map.
  \<^item> Each handler returns the store it leaves behind together with its outcome, so that a
    handler which fails after it has written is a value of the model like any other.
  \<^item> Authentication and role checks run before a handler body and never touch the
    tables; the model starts after them and takes the user id as an argument.
  \<^item> One request is served at a time: the model has no interleaving of two handlers.
\<close>

datatype product_type = RAW | GALLON | PRODUCT_PACK | PRODUCT_LIQUID

datatype tx_type = PRODUCTION | PURCHASE | SALE

record warehouse =
  wh_id :: nat
  wh_code :: string
  wh_name :: string

record product =
  p_id :: nat
  p_code :: string
  p_name :: string
  p_type :: product_type
  p_unit :: string

record formula =
  f_productCode :: string
  f_rawCode :: string
  f_kgPerLiter :: rat

record alert_rule =
  r_warehouseCode :: string
  r_productCode :: string
  r_minQty :: rat

record inventory_tx =
  tx_txType :: tx_type
  tx_warehouseId :: nat
  tx_productId :: nat
  tx_qty :: rat
  tx_userId :: nat

record db =
  warehouses :: "warehouse list"
  products :: "product list"
  formulaPerLiter :: "formula list"
  alertRules :: "alert_rule list"
  inventory :: "nat \<times> nat \<rightharpoonup> rat"
  inventoryTx :: "inventory_tx list"

text \<open>
  What a handler can answer instead of its result. \<open>UnknownWarehouse\<close> and
  \<open>UnknownProduct\<close> stand for the errors the two lookup helpers throw, \<open>SeedNotFound\<close>
  for the error the seed script's \<open>setInv\<close> throws; the others are the answers the
  handlers send with status 400, with the quantities they carry.
\<close>

datatype failure =
    UnknownWarehouse string
  | UnknownProduct string
  | InvalidBody
  | FormulaNotDefined
  | InsufficientRawMaterial string rat rat
  | InsufficientContainers int int rat
  | InsufficientPackagedStock rat int
  | InsufficientLiquidStock rat int
  | DisallowedPurchaseTarget string
  | SeedNotFound string string

section \<open>Helpers\<close>

text \<open>
  The two lookups find the row with the given code and throw when there is none;
  \<open>getInv\<close> reads a balance and answers 0 when the pair has no row.
\<close>

definition getWarehouseId :: "db \<Rightarrow> string \<Rightarrow> failure + nat" where
  "getWarehouseId s code =
     (case find (\<lambda>w. wh_code w = code) (warehouses s) of
        None \<Rightarrow> Inl (UnknownWarehouse code)
      | Some wh \<Rightarrow> Inr (wh_id wh))"

definition getProductByCode :: "db \<Rightarrow> string \<Rightarrow> failure + product" where
  "getProductByCode s code =
     (case find (\<lambda>p. p_code p = code) (products s) of
        None \<Rightarrow> Inl (UnknownProduct code)
      | Some p \<Rightarrow> Inr p)"

definition getInv :: "db \<Rightarrow> nat \<Rightarrow> nat \<Rightarrow> rat" where
  "getInv s warehouseId productId =
     (case inventory s (warehouseId, productId) of None \<Rightarrow> 0 | Some q \<Rightarrow> q)"

text \<open>
  \<open>applyTx\<close> first creates the ledger row, then upserts the balance: an existing row is
  incremented, a missing one is created holding the quantity.
\<close>

definition applyTx :: "tx_type \<Rightarrow> nat \<Rightarrow> nat \<Rightarrow> rat \<Rightarrow> nat \<Rightarrow> db \<Rightarrow> db" where
  "applyTx txType warehouseId productId q userId s =
     s\<lparr>inventoryTx := inventoryTx s @
          [\<lparr>tx_txType = txType, tx_warehouseId = warehouseId, tx_productId = productId,
            tx_qty = q, tx_userId = userId\<rparr>],
       inventory := (inventory s)((warehouseId, productId) \<mapsto>
          (case inventory s (warehouseId, productId) of None \<Rightarrow> q | Some old \<Rightarrow> old + q))\<rparr>"

text \<open>
  A number inside a template literal is rendered in decimal. The container size is the
  only number the handlers render, and only after the schema has admitted it (5, 10 or
  20), so the rendering of a natural number is all that is needed.
\<close>

function str_of_nat :: "nat \<Rightarrow> string" where
  "str_of_nat n =
     (if n < 10 then [''0123456789'' ! n]
      else str_of_nat (n div 10) @ [''0123456789'' ! (n mod 10)])"
  by pat_completeness auto
termination
  by (relation "measure id") auto

declare str_of_nat.simps [simp del]

definition gallon_code :: "int \<Rightarrow> string" where
  "gallon_code gallonSize = ''GALLON_'' @ str_of_nat (nat gallonSize)"

definition pack_code :: "string \<Rightarrow> int \<Rightarrow> string" where
  "pack_code productCode gallonSize = productCode @ ''_PACK_'' @ str_of_nat (nat gallonSize)"

definition liters_code :: "string \<Rightarrow> string" where
  "liters_code productCode = productCode @ ''_LITERS''"

text \<open>The formula rows of a product code, in table order.\<close>

definition formula_for :: "db \<Rightarrow> string \<Rightarrow> formula list" where
  "formula_for s productCode = filter (\<lambda>f. f_productCode f = productCode) (formulaPerLiter s)"

section \<open>Production\<close>

record production_body =
  pb_productCode :: string
  pb_gallonSize :: int
  pb_count :: int

record production_result =
  pr_productCode :: string
  pr_gallonSize :: int
  pr_count :: int
  pr_liters :: int
  pr_consumed :: "(string \<times> rat) list"

text \<open>The request schema: a non-empty code, a size of 5, 10 or 20, a positive integer count.\<close>

definition production_schema :: "production_body \<Rightarrow> bool" where
  "production_schema b \<longleftrightarrow>
     pb_productCode b \<noteq> [] \<and> (pb_gallonSize b = 5 \<or> pb_gallonSize b = 10 \<or> pb_gallonSize b = 20)
     \<and> 0 < pb_count b"

text \<open>
  The first loop over the formula: look the raw material up, compare its balance in the
  raw warehouse with what is needed, answer 400 at the first shortfall. It writes nothing.
\<close>

fun check_raw :: "db \<Rightarrow> nat \<Rightarrow> int \<Rightarrow> formula list \<Rightarrow> failure option" where
  "check_raw s RAW_WH liters [] = None"
| "check_raw s RAW_WH liters (f # fs) =
     (case getProductByCode s (f_rawCode f) of
        Inl e \<Rightarrow> Some e
      | Inr raw \<Rightarrow>
          (let needKg = f_kgPerLiter f * of_int liters;
               avail = getInv s RAW_WH (p_id raw)
           in if avail < needKg then Some (InsufficientRawMaterial (f_rawCode f) needKg avail)
              else check_raw s RAW_WH liters fs))"

text \<open>
  The second loop over the formula: look the raw material up again, write the negative
  entry, push the consumed amount.
\<close>

fun consume_raw ::
  "nat \<Rightarrow> int \<Rightarrow> nat \<Rightarrow> formula list \<Rightarrow> db \<Rightarrow> (string \<times> rat) list
     \<Rightarrow> db \<times> (failure + (string \<times> rat) list)" where
  "consume_raw RAW_WH liters userId [] s consumed = (s, Inr consumed)"
| "consume_raw RAW_WH liters userId (f # fs) s consumed =
     (case getProductByCode s (f_rawCode f) of
        Inl e \<Rightarrow> (s, Inl e)
      | Inr raw \<Rightarrow>
          (let needKg = f_kgPerLiter f * of_int liters
           in consume_raw RAW_WH liters userId fs
                (applyTx PRODUCTION RAW_WH (p_id raw) (- needKg) userId s)
                (consumed @ [(f_rawCode f, needKg)])))"

text \<open>Everything from \<open>const consumed = []\<close> to the response.\<close>

definition production_commit ::
  "db \<Rightarrow> nat \<Rightarrow> production_body \<Rightarrow> int \<Rightarrow> nat \<Rightarrow> nat \<Rightarrow> nat \<Rightarrow> formula list \<Rightarrow> product
     \<Rightarrow> db \<times> (failure + production_result)" where
  "production_commit s userId b liters RAW_WH GAL_WH FG_WH formula gallonProd =
     (case consume_raw RAW_WH liters userId formula s [] of
        (s1, Inl e) \<Rightarrow> (s1, Inl e)
      | (s1, Inr consumed) \<Rightarrow>
          (let s2 = applyTx PRODUCTION GAL_WH (p_id gallonProd) (- of_int (pb_count b)) userId s1
           in case getProductByCode s2 (pack_code (pb_productCode b) (pb_gallonSize b)) of
                Inl e \<Rightarrow> (s2, Inl e)
              | Inr pack \<Rightarrow>
                  (case getProductByCode s2 (liters_code (pb_productCode b)) of
                     Inl e \<Rightarrow> (s2, Inl e)
                   | Inr litersProd \<Rightarrow>
                       (let s3 = applyTx PRODUCTION FG_WH (p_id pack) (of_int (pb_count b)) userId s2;
                            s4 = applyTx PRODUCTION FG_WH (p_id litersProd) (of_int liters) userId s3
                        in (s4, Inr \<lparr>pr_productCode = pb_productCode b,
                                     pr_gallonSize = pb_gallonSize b,
                                     pr_count = pb_count b, pr_liters = liters,
                                     pr_consumed = consumed\<rparr>)))))"

text \<open>The handler of \<^verbatim>\<open>POST /production\<close>, from the schema to the stock checks.\<close>

definition production :: "db \<Rightarrow> nat \<Rightarrow> production_body \<Rightarrow> db \<times> (failure + production_result)" where
  "production s userId b =
     (if \<not> production_schema b then (s, Inl InvalidBody)
      else
        let liters = pb_count b * pb_gallonSize b in
        case getWarehouseId s ''RAW_WH'' of Inl e \<Rightarrow> (s, Inl e) | Inr RAW_WH \<Rightarrow>
        case getWarehouseId s ''GAL_WH'' of Inl e \<Rightarrow> (s, Inl e) | Inr GAL_WH \<Rightarrow>
        case getWarehouseId s ''FG_WH'' of Inl e \<Rightarrow> (s, Inl e) | Inr FG_WH \<Rightarrow>
        let formula = formula_for s (pb_productCode b) in
        if formula = [] then (s, Inl FormulaNotDefined)
        else
          case check_raw s RAW_WH liters formula of Some e \<Rightarrow> (s, Inl e) | None \<Rightarrow>
          case getProductByCode s (gallon_code (pb_gallonSize b)) of
            Inl e \<Rightarrow> (s, Inl e)
          | Inr gallonProd \<Rightarrow>
              let availG = getInv s GAL_WH (p_id gallonProd) in
              if availG < of_int (pb_count b)
              then (s, Inl (InsufficientContainers (pb_gallonSize b) (pb_count b) availG))
              else production_commit s userId b liters RAW_WH GAL_WH FG_WH formula gallonProd)"

section \<open>Purchases\<close>

text \<open>The request schema: at least one item, each with a non-empty code and a positive quantity.\<close>

definition purchases_schema :: "(string \<times> rat) list \<Rightarrow> bool" where
  "purchases_schema items \<longleftrightarrow> items \<noteq> [] \<and> list_all (\<lambda>(code, q). code \<noteq> [] \<and> 0 < q) items"

text \<open>
  The loop over the items. The warehouse is chosen from the product's type; the test
  \<^verbatim>\<open>!whId\<close> holds for \<^verbatim>\<open>null\<close> and also for an identifier that is 0.
\<close>

fun purchase_items :: "nat \<Rightarrow> nat \<Rightarrow> nat \<Rightarrow> (string \<times> rat) list \<Rightarrow> db \<Rightarrow> db \<times> (failure + unit)" where
  "purchase_items RAW_WH GAL_WH userId [] s = (s, Inr ())"
| "purchase_items RAW_WH GAL_WH userId ((code, q) # its) s =
     (case getProductByCode s code of
        Inl e \<Rightarrow> (s, Inl e)
      | Inr p \<Rightarrow>
          (let whId = (if p_type p = RAW then Some RAW_WH
                       else if p_type p = GALLON then Some GAL_WH
                       else None)
           in case whId of
                None \<Rightarrow> (s, Inl (DisallowedPurchaseTarget code))
              | Some w \<Rightarrow>
                  if w = 0 then (s, Inl (DisallowedPurchaseTarget code))
                  else purchase_items RAW_WH GAL_WH userId its
                         (applyTx PURCHASE w (p_id p) q userId s)))"

text \<open>The handler of \<^verbatim>\<open>POST /purchases\<close>; on success it answers \<^verbatim>\<open>{ok: true}\<close>.\<close>

definition purchases :: "db \<Rightarrow> nat \<Rightarrow> (string \<times> rat) list \<Rightarrow> db \<times> (failure + unit)" where
  "purchases s userId items =
     (if \<not> purchases_schema items then (s, Inl InvalidBody)
      else
        case getWarehouseId s ''RAW_WH'' of Inl e \<Rightarrow> (s, Inl e) | Inr RAW_WH \<Rightarrow>
        case getWarehouseId s ''GAL_WH'' of Inl e \<Rightarrow> (s, Inl e) | Inr GAL_WH \<Rightarrow>
        purchase_items RAW_WH GAL_WH userId items s)"

section \<open>Sales\<close>

record sales_result =
  sr_productCode :: string
  sr_gallonSize :: int
  sr_count :: int
  sr_liters :: int

text \<open>
  The handler of \<^verbatim>\<open>POST /sales\<close>. It declares the same schema as the production handler
  (code, size of 5, 10 or 20, positive integer count), so the body type and the schema
  check are shared. Both products are looked up before the two balances are read.
\<close>

definition sales :: "db \<Rightarrow> nat \<Rightarrow> production_body \<Rightarrow> db \<times> (failure + sales_result)" where
  "sales s userId b =
     (if \<not> production_schema b then (s, Inl InvalidBody)
      else
        let liters = pb_count b * pb_gallonSize b in
        case getWarehouseId s ''FG_WH'' of Inl e \<Rightarrow> (s, Inl e) | Inr FG_WH \<Rightarrow>
        case getProductByCode s (pack_code (pb_productCode b) (pb_gallonSize b)) of
          Inl e \<Rightarrow> (s, Inl e)
        | Inr pack \<Rightarrow>
        case getProductByCode s (liters_code (pb_productCode b)) of
          Inl e \<Rightarrow> (s, Inl e)
        | Inr litersProd \<Rightarrow>
            let availPack = getInv s FG_WH (p_id pack);
                availLit = getInv s FG_WH (p_id litersProd)
            in if availPack < of_int (pb_count b)
               then (s, Inl (InsufficientPackagedStock availPack (pb_count b)))
               else if availLit < of_int liters
               then (s, Inl (InsufficientLiquidStock availLit liters))
               else
                 let s1 = applyTx SALE FG_WH (p_id pack) (- of_int (pb_count b)) userId s;
                     s2 = applyTx SALE FG_WH (p_id litersProd) (- of_int liters) userId s1
                 in (s2, Inr \<lparr>sr_productCode = pb_productCode b,
                              sr_gallonSize = pb_gallonSize b,
                              sr_count = pb_count b, sr_liters = liters\<rparr>))"

section \<open>Active alerts\<close>

record alert =
  al_warehouse :: string
  al_product :: string
  al_current :: rat
  al_min :: rat
  al_unit :: string

text \<open>
  The loop over the rules, in the order the table returns them. A rule whose warehouse
  or product is not found is passed over by \<^verbatim>\<open>continue\<close>.
\<close>

fun alerts_loop :: "db \<Rightarrow> alert_rule list \<Rightarrow> alert list \<Rightarrow> alert list" where
  "alerts_loop s [] results = results"
| "alerts_loop s (r # rs) results =
     (case find (\<lambda>w. wh_code w = r_warehouseCode r) (warehouses s) of
        None \<Rightarrow> alerts_loop s rs results
      | Some wh \<Rightarrow>
          (case find (\<lambda>p. p_code p = r_productCode r) (products s) of
             None \<Rightarrow> alerts_loop s rs results
           | Some pr \<Rightarrow>
               (let q = (case inventory s (wh_id wh, p_id pr) of None \<Rightarrow> 0 | Some c \<Rightarrow> c)
                in if q < r_minQty r
                   then alerts_loop s rs
                          (results @ [\<lparr>al_warehouse = wh_name wh, al_product = p_code pr,
                                       al_current = q, al_min = r_minQty r,
                                       al_unit = p_unit pr\<rparr>])
                   else alerts_loop s rs results)))"

definition alerts_active :: "db \<Rightarrow> alert list" where
  "alerts_active s = alerts_loop s (alertRules s) []"

section \<open>The seed script's balance writer\<close>


section \<open>Notions used in the statements\<close>

text \<open>
  A ledger entry is on a pair when it carries that warehouse and that product; the sum of a
  list of entries on a pair adds their quantities; the ledger sum of a store is that sum
  over its whole ledger.
\<close>

definition tx_on :: "nat \<Rightarrow> nat \<Rightarrow> inventory_tx \<Rightarrow> bool" where
  "tx_on w p e \<longleftrightarrow> tx_warehouseId e = w \<and> tx_productId e = p"

definition delta_sum :: "nat \<Rightarrow> nat \<Rightarrow> inventory_tx list \<Rightarrow> rat" where
  "delta_sum w p es = sum_list (map tx_qty (filter (tx_on w p) es))"

definition ledger_sum :: "db \<Rightarrow> nat \<Rightarrow> nat \<Rightarrow> rat" where
  "ledger_sum s w p = delta_sum w p (inventoryTx s)"

text \<open>The catalog: the four tables no handler writes.\<close>

definition same_catalog :: "db \<Rightarrow> db \<Rightarrow> bool" where
  "same_catalog s s' \<longleftrightarrow>
     warehouses s' = warehouses s \<and> products s' = products s \<and>
     formulaPerLiter s' = formulaPerLiter s \<and> alertRules s' = alertRules s"

text \<open>
  The constraints the database enforces on the tables: identifiers are primary keys, the
  codes the handlers search by are unique, and formula rows and alert rules are unique per
  pair of codes (the seed script upserts them by these compound keys).
\<close>

definition wf_db :: "db \<Rightarrow> bool" where
  "wf_db s \<longleftrightarrow>
     distinct (map wh_id (warehouses s)) \<and> distinct (map wh_code (warehouses s)) \<and>
     distinct (map p_id (products s)) \<and> distinct (map p_code (products s)) \<and>
     distinct (map (\<lambda>f. (f_productCode f, f_rawCode f)) (formulaPerLiter s)) \<and>
     distinct (map (\<lambda>r. (r_warehouseCode r, r_productCode r)) (alertRules s))"

text \<open>
  \<open>committed s es s'\<close>: the store \<open>s'\<close> is \<open>s\<close> after the entries \<open>es\<close> were applied, in
  this order: same catalog, the ledger longer by \<open>es\<close>, every balance moved by the sum of
  the entries on its pair.
\<close>

definition committed :: "db \<Rightarrow> inventory_tx list \<Rightarrow> db \<Rightarrow> bool" where
  "committed s es s' \<longleftrightarrow>
     same_catalog s s' \<and> inventoryTx s' = inventoryTx s @ es \<and>
     (\<forall>w p. getInv s' w p = getInv s w p + delta_sum w p es)"

text \<open>
  The entries a production writes, named after what they move. \<open>raws\<close> are the products
  the formula's raw codes resolve to, row by row.
\<close>

definition liters_of :: "production_body \<Rightarrow> int" where
  "liters_of b = pb_count b * pb_gallonSize b"

definition raw_entries :: "nat \<Rightarrow> int \<Rightarrow> nat \<Rightarrow> formula list \<Rightarrow> product list \<Rightarrow> inventory_tx list" where
  "raw_entries RAW_WH liters userId fs raws =
     map (\<lambda>(f, raw). \<lparr>tx_txType = PRODUCTION, tx_warehouseId = RAW_WH, tx_productId = p_id raw,
                      tx_qty = - (f_kgPerLiter f * of_int liters), tx_userId = userId\<rparr>)
       (zip fs raws)"

definition consumed_of :: "int \<Rightarrow> formula list \<Rightarrow> (string \<times> rat) list" where
  "consumed_of liters fs = map (\<lambda>f. (f_rawCode f, f_kgPerLiter f * of_int liters)) fs"

definition gallon_entry :: "nat \<Rightarrow> product \<Rightarrow> production_body \<Rightarrow> nat \<Rightarrow> inventory_tx" where
  "gallon_entry GAL_WH gallonProd b userId =
     \<lparr>tx_txType = PRODUCTION, tx_warehouseId = GAL_WH, tx_productId = p_id gallonProd,
      tx_qty = - of_int (pb_count b), tx_userId = userId\<rparr>"

definition fg_entry :: "tx_type \<Rightarrow> nat \<Rightarrow> product \<Rightarrow> rat \<Rightarrow> nat \<Rightarrow> inventory_tx" where
  "fg_entry t FG_WH pr q userId =
     \<lparr>tx_txType = t, tx_warehouseId = FG_WH, tx_productId = p_id pr,
      tx_qty = q, tx_userId = userId\<rparr>"

definition production_echo :: "production_body \<Rightarrow> formula list \<Rightarrow> production_result" where
  "production_echo b fs =
     \<lparr>pr_productCode = pb_productCode b, pr_gallonSize = pb_gallonSize b,
      pr_count = pb_count b, pr_liters = liters_of b,
      pr_consumed = consumed_of (liters_of b) fs\<rparr>"

text \<open>Everything the production handler looks up and checks before its first write.\<close>

definition production_ready ::
  "db \<Rightarrow> production_body \<Rightarrow> nat \<Rightarrow> nat \<Rightarrow> nat \<Rightarrow> product list \<Rightarrow> product \<Rightarrow> bool" where
  "production_ready s b RAW_WH GAL_WH FG_WH raws gallonProd \<longleftrightarrow>
     production_schema b \<and>
     getWarehouseId s ''RAW_WH'' = Inr RAW_WH \<and>
     getWarehouseId s ''GAL_WH'' = Inr GAL_WH \<and>
     getWarehouseId s ''FG_WH'' = Inr FG_WH \<and>
     formula_for s (pb_productCode b) \<noteq> [] \<and>
     list_all2 (\<lambda>f raw. getProductByCode s (f_rawCode f) = Inr raw \<and>
                  f_kgPerLiter f * of_int (liters_of b) \<le> getInv s RAW_WH (p_id raw))
       (formula_for s (pb_productCode b)) raws \<and>
     getProductByCode s (gallon_code (pb_gallonSize b)) = Inr gallonProd \<and>
     of_int (pb_count b) \<le> getInv s GAL_WH (p_id gallonProd)"

text \<open>
  The entries a purchase writes: one per item, in item order, into the raw warehouse for a
  raw material and into the gallon warehouse for a gallon. \<open>ps\<close> are the products the
  item codes resolve to.
\<close>

definition purchase_entries ::
  "nat \<Rightarrow> nat \<Rightarrow> nat \<Rightarrow> (string \<times> rat) list \<Rightarrow> product list \<Rightarrow> inventory_tx list" where
  "purchase_entries RAW_WH GAL_WH userId items ps =
     map (\<lambda>((code, q), p).
            \<lparr>tx_txType = PURCHASE,
             tx_warehouseId = (if p_type p = RAW then RAW_WH else GAL_WH),
             tx_productId = p_id p, tx_qty = q, tx_userId = userId\<rparr>)
       (zip items ps)"

text \<open>
  A request to one of the three writing handlers; \<open>exec\<close> is the store the handler leaves,
  whatever its outcome, and \<open>run\<close> serves a list of requests one after the other.
\<close>

datatype request =
    Production nat production_body
  | Purchases nat "(string \<times> rat) list"
  | Sales nat production_body

fun exec :: "db \<Rightarrow> request \<Rightarrow> db" where
  "exec s (Production userId b) = fst (production s userId b)"
| "exec s (Purchases userId items) = fst (purchases s userId items)"
| "exec s (Sales userId b) = fst (sales s userId b)"

definition run :: "db \<Rightarrow> request list \<Rightarrow> db" where
  "run s rs = foldl exec s rs"

text \<open>The four rejections for lack of stock.\<close>

fun insufficiency :: "failure \<Rightarrow> bool" where
  "insufficiency (InsufficientRawMaterial c need avail) = True"
| "insufficiency (InsufficientContainers g need avail) = True"
| "insufficiency (InsufficientPackagedStock avail need) = True"
| "insufficiency (InsufficientLiquidStock avail need) = True"
| "insufficiency e = False"

text \<open>No balance of the store is negative.\<close>

definition nonneg :: "db \<Rightarrow> bool" where
  "nonneg s \<longleftrightarrow> (\<forall>w p. 0 \<le> getInv s w p)"

text \<open>
  \<open>names_pair s whCode prodCode w p\<close>: in the catalog of \<open>s\<close> the warehouse code
  resolves to the identifier \<open>w\<close> and the product code to a product of identifier \<open>p\<close>.
\<close>

definition names_pair :: "db \<Rightarrow> string \<Rightarrow> string \<Rightarrow> nat \<Rightarrow> nat \<Rightarrow> bool" where
  "names_pair s whCode prodCode w p \<longleftrightarrow>
     getWarehouseId s whCode = Inr w \<and>
     (case getProductByCode s prodCode of Inl e \<Rightarrow> False | Inr pr \<Rightarrow> p_id pr = p)"




text \<open>
  What one alert rule contributes, in the words of the specification as amended: for a
  rule whose warehouse and product codes resolve, the current quantity is the balance of
  the pair (0 when it has no row), and the rule contributes one record with the current
  and the minimum quantity when the current quantity is strictly below the minimum, and
  nothing otherwise; a rule whose warehouse or product code does not resolve contributes
  nothing.
\<close>

definition rule_breaches :: "db \<Rightarrow> alert_rule \<Rightarrow> alert list" where
  "rule_breaches s r =
     (case find (\<lambda>w. wh_code w = r_warehouseCode r) (warehouses s) of
        None \<Rightarrow> []
      | Some wh \<Rightarrow>
          (case find (\<lambda>p. p_code p = r_productCode r) (products s) of
             None \<Rightarrow> []
           | Some pr \<Rightarrow>
               if getInv s (wh_id wh) (p_id pr) < r_minQty r
               then [\<lparr>al_warehouse = wh_name wh, al_product = p_code pr,
                      al_current = getInv s (wh_id wh) (p_id pr), al_min = r_minQty r,
                      al_unit = p_unit pr\<rparr>]
               else []))"



section \<open>Example stores\<close>

text \<open>
  The store of the production scenario: formula TP with P at 0.53 and S at 0.304 kg per
  liter, 1000 kg of each, 50 empty 10-liter gallons, nothing in the finished-goods
  warehouse, an empty ledger. The codes are those of the seed script; the names, which the
  seed script writes in Persian, are English here.
\<close>

definition demo_db :: db where
  "demo_db =
     \<lparr>warehouses =
        [\<lparr>wh_id = 10, wh_code = ''RAW_WH'', wh_name = ''raw materials''\<rparr>,
         \<lparr>wh_id = 20, wh_code = ''FG_WH'', wh_name = ''finished goods''\<rparr>,
         \<lparr>wh_id = 30, wh_code = ''GAL_WH'', wh_name = ''gallons''\<rparr>],
      products =
        [\<lparr>p_id = 101, p_code = ''P'', p_name = ''P'', p_type = RAW, p_unit = ''kg''\<rparr>,
         \<lparr>p_id = 102, p_code = ''S'', p_name = ''S'', p_type = RAW, p_unit = ''kg''\<rparr>,
         \<lparr>p_id = 103, p_code = ''GALLON_10'', p_name = ''gallon 10'', p_type = GALLON, p_unit = ''count''\<rparr>,
         \<lparr>p_id = 104, p_code = ''TP_PACK_10'', p_name = ''TP 10L'', p_type = PRODUCT_PACK, p_unit = ''count''\<rparr>,
         \<lparr>p_id = 105, p_code = ''TP_LITERS'', p_name = ''TP liters'', p_type = PRODUCT_LIQUID, p_unit = ''liter''\<rparr>],
      formulaPerLiter =
        [\<lparr>f_productCode = ''TP'', f_rawCode = ''P'', f_kgPerLiter = 53 / 100\<rparr>,
         \<lparr>f_productCode = ''TP'', f_rawCode = ''S'', f_kgPerLiter = 304 / 1000\<rparr>],
      alertRules =
        [\<lparr>r_warehouseCode = ''RAW_WH'', r_productCode = ''S'', r_minQty = 10000\<rparr>],
      inventory = [(10, 101) \<mapsto> 1000, (10, 102) \<mapsto> 1000, (30, 103) \<mapsto> 50],
      inventoryTx = []\<rparr>"

definition tp_body :: production_body where
  "tp_body = \<lparr>pb_productCode = ''TP'', pb_gallonSize = 10, pb_count = 20\<rparr>"

text \<open>
  The example store without the TP pack and liters products (the formula is still there),
  and the example store holding 10 packs of 10 liters and 100 liters of TP.
\<close>

definition nopack_db :: db where
  "nopack_db = demo_db\<lparr>products :=
     [\<lparr>p_id = 101, p_code = ''P'', p_name = ''P'', p_type = RAW, p_unit = ''kg''\<rparr>,
      \<lparr>p_id = 102, p_code = ''S'', p_name = ''S'', p_type = RAW, p_unit = ''kg''\<rparr>,
      \<lparr>p_id = 103, p_code = ''GALLON_10'', p_name = ''gallon 10'', p_type = GALLON, p_unit = ''count''\<rparr>]\<rparr>"

definition sale_db :: db where
  "sale_db = demo_db\<lparr>inventory := [(20, 104) \<mapsto> 10, (20, 105) \<mapsto> 100]\<rparr>"

text \<open>The example store with only 50 kg of P (the shortfall scenario).\<close>

definition short_db :: db where
  "short_db = demo_db\<lparr>inventory := [(10, 101) \<mapsto> 50, (10, 102) \<mapsto> 1000, (30, 103) \<mapsto> 50]\<rparr>"

text \<open>
  The example catalog with no balance row and no ledger entry (the store before the seed
  script sets the initial inventory), and the same store after the seed script's
  \<open>setInv\<close> has set 10000 kg of S.
\<close>

definition fresh_db :: db where
  "fresh_db = demo_db\<lparr>inventory := Map.empty\<rparr>"



text \<open>
  Stores for the alert scenarios: the example store with a given balance of S; the example
  store with a rule on a product code that does not exist; the example store with a
  first rule on a warehouse code that does not exist.
\<close>

definition alert_db :: "rat \<Rightarrow> db" where
  "alert_db q = demo_db\<lparr>inventory := [(10, 102) \<mapsto> q]\<rparr>"

definition ghost_db :: db where
  "ghost_db = demo_db\<lparr>alertRules :=
     [\<lparr>r_warehouseCode = ''RAW_WH'', r_productCode = ''GHOST'', r_minQty = 10\<rparr>]\<rparr>"


section \<open>Basic facts\<close>

lemmas eval_defs = production_def production_schema_def Let_def formula_for_def getWarehouseId_def
  getProductByCode_def getInv_def gallon_code_def pack_code_def liters_code_def
  production_commit_def applyTx_def purchases_def purchases_schema_def sales_def

lemma str_of_nat_sizes [simp]:
  "str_of_nat 5 = ''5''" "str_of_nat 10 = ''10''" "str_of_nat 20 = ''20''"
  by (simp_all add: str_of_nat.simps)

lemma applyTx_catalog [simp]:
  "warehouses (applyTx t w p q u s) = warehouses s"
  "products (applyTx t w p q u s) = products s"
  "formulaPerLiter (applyTx t w p q u s) = formulaPerLiter s"
  "alertRules (applyTx t w p q u s) = alertRules s"
  by (simp_all add: applyTx_def)

lemma applyTx_ledger [simp]:
  "inventoryTx (applyTx t w p q u s) = inventoryTx s @
     [\<lparr>tx_txType = t, tx_warehouseId = w, tx_productId = p, tx_qty = q, tx_userId = u\<rparr>]"
  by (simp add: applyTx_def)

lemma getInv_applyTx:
  "getInv (applyTx t w p q u s) w' p' =
     (if w' = w \<and> p' = p then getInv s w p + q else getInv s w' p')"
  by (auto simp add: applyTx_def getInv_def split: option.splits)

lemma getProductByCode_applyTx [simp]:
  "getProductByCode (applyTx t w p q u s) c = getProductByCode s c"
  by (simp add: getProductByCode_def)

lemma getWarehouseId_applyTx [simp]:
  "getWarehouseId (applyTx t w p q u s) c = getWarehouseId s c"
  by (simp add: getWarehouseId_def)

lemma delta_sum_append [simp]: "delta_sum w p (es @ fs) = delta_sum w p es + delta_sum w p fs"
  by (simp add: delta_sum_def)

lemma delta_sum_Nil [simp]: "delta_sum w p [] = 0"
  by (simp add: delta_sum_def)

lemma delta_sum_Cons [simp]:
  "delta_sum w p (e # es) = (if tx_on w p e then tx_qty e else 0) + delta_sum w p es"
  by (simp add: delta_sum_def)

lemma committed_refl: "committed s [] s"
  by (simp add: committed_def same_catalog_def)

lemma committed_applyTx:
  "committed s es s1 \<Longrightarrow>
   committed s (es @ [\<lparr>tx_txType = t, tx_warehouseId = w, tx_productId = p, tx_qty = q, tx_userId = u\<rparr>])
     (applyTx t w p q u s1)"
  by (auto simp add: committed_def same_catalog_def getInv_applyTx tx_on_def)

lemma same_catalog_refl [simp]: "same_catalog s s"
  by (simp add: same_catalog_def)

lemma same_catalog_lookup:
  assumes "same_catalog s s'"
  shows "getProductByCode s' c = getProductByCode s c"
    and "getWarehouseId s' c = getWarehouseId s c"
  using assms by (simp_all add: same_catalog_def getProductByCode_def getWarehouseId_def)

lemma committed_lookup:
  assumes "committed s es s'"
  shows "getProductByCode s' c = getProductByCode s c"
    and "getWarehouseId s' c = getWarehouseId s c"
  using assms by (simp_all add: committed_def same_catalog_lookup)

lemma check_raw_None:
  "check_raw s R l fs = None \<Longrightarrow>
   \<exists>raws. list_all2 (\<lambda>f raw. getProductByCode s (f_rawCode f) = Inr raw \<and>
                         f_kgPerLiter f * of_int l \<le> getInv s R (p_id raw)) fs raws"
proof (induction fs)
  case Nil
  then show ?case by simp
next
  case (Cons f fs)
  from Cons.prems obtain raw where
    raw: "getProductByCode s (f_rawCode f) = Inr raw"
    and ok: "\<not> getInv s R (p_id raw) < f_kgPerLiter f * of_int l"
    and rest: "check_raw s R l fs = None"
    by (auto simp add: Let_def split: sum.splits if_splits)
  from Cons.IH [OF rest] obtain raws where
    "list_all2 (\<lambda>f raw. getProductByCode s (f_rawCode f) = Inr raw \<and>
                 f_kgPerLiter f * of_int l \<le> getInv s R (p_id raw)) fs raws" ..
  with raw ok have
    "list_all2 (\<lambda>f raw. getProductByCode s (f_rawCode f) = Inr raw \<and>
                 f_kgPerLiter f * of_int l \<le> getInv s R (p_id raw)) (f # fs) (raw # raws)"
    by simp
  then show ?case ..
qed

lemma check_raw_Some:
  "check_raw s R l fs = Some e \<Longrightarrow>
   (\<exists>c. e = UnknownProduct c) \<or> (\<exists>c need avail. e = InsufficientRawMaterial c need avail \<and> avail < need)"
  by (induction fs) (auto simp add: Let_def getProductByCode_def split: sum.splits if_splits option.splits)

lemma consume_raw_committed:
  "list_all2 (\<lambda>f raw. getProductByCode s0 (f_rawCode f) = Inr raw) fs raws \<Longrightarrow>
   committed s0 es s \<Longrightarrow>
   \<exists>s1. consume_raw R l u fs s acc = (s1, Inr (acc @ consumed_of l fs)) \<and>
        committed s0 (es @ raw_entries R l u fs raws) s1"
proof (induction fs raws arbitrary: s acc es rule: list_all2_induct)
  case Nil
  then show ?case by (simp add: raw_entries_def consumed_of_def)
next
  case (Cons f fs raw raws)
  let ?e = "\<lparr>tx_txType = PRODUCTION, tx_warehouseId = R, tx_productId = p_id raw,
             tx_qty = - (f_kgPerLiter f * of_int l), tx_userId = u\<rparr>"
  have look: "getProductByCode s (f_rawCode f) = Inr raw"
    using Cons.hyps(1) Cons.prems by (simp add: committed_lookup)
  have "committed s0 (es @ [?e]) (applyTx PRODUCTION R (p_id raw) (- (f_kgPerLiter f * of_int l)) u s)"
    using Cons.prems by (rule committed_applyTx)
  from Cons.IH [OF this, of "acc @ [(f_rawCode f, f_kgPerLiter f * of_int l)]"]
  show ?case using look
    by (simp add: raw_entries_def consumed_of_def Let_def)
qed

lemma production_commit_outcome:
  assumes raws: "list_all2 (\<lambda>f raw. getProductByCode s (f_rawCode f) = Inr raw) fs raws"
    and run: "production_commit s u b l R G FG fs g = (s', out)"
  shows "(\<exists>c. out = Inl (UnknownProduct c) \<and>
            (getProductByCode s (pack_code (pb_productCode b) (pb_gallonSize b)) = Inl (UnknownProduct c) \<or>
             getProductByCode s (liters_code (pb_productCode b)) = Inl (UnknownProduct c)) \<and>
            committed s (raw_entries R l u fs raws @ [gallon_entry G g b u]) s')
       \<or> (\<exists>pack litersProd.
            getProductByCode s (pack_code (pb_productCode b) (pb_gallonSize b)) = Inr pack \<and>
            getProductByCode s (liters_code (pb_productCode b)) = Inr litersProd \<and>
            out = Inr \<lparr>pr_productCode = pb_productCode b, pr_gallonSize = pb_gallonSize b,
                       pr_count = pb_count b, pr_liters = l, pr_consumed = consumed_of l fs\<rparr> \<and>
            committed s (raw_entries R l u fs raws @
                          [gallon_entry G g b u,
                           fg_entry PRODUCTION FG pack (of_int (pb_count b)) u,
                           fg_entry PRODUCTION FG litersProd (of_int l) u]) s')"
proof -
  from consume_raw_committed [OF raws committed_refl, of R l u "[]"]
  obtain s1 where c1: "consume_raw R l u fs s [] = (s1, Inr (consumed_of l fs))"
    and k1: "committed s (raw_entries R l u fs raws) s1"
    by auto
  define s2 where "s2 = applyTx PRODUCTION G (p_id g) (- of_int (pb_count b)) u s1"
  have k2: "committed s (raw_entries R l u fs raws @ [gallon_entry G g b u]) s2"
    unfolding s2_def gallon_entry_def using k1 by (rule committed_applyTx)
  have look2: "getProductByCode s2 c = getProductByCode s c" for c
    using k2 by (rule committed_lookup)
  show ?thesis
  proof (cases "getProductByCode s (pack_code (pb_productCode b) (pb_gallonSize b))")
    case (Inl e)
    then obtain c where e: "e = UnknownProduct c"
      by (auto simp add: getProductByCode_def split: option.splits)
    from run c1 Inl have "s' = s2" "out = Inl e"
      by (simp_all add: production_commit_def Let_def s2_def [symmetric] look2)
    with Inl e k2 show ?thesis by auto
  next
    case pk: (Inr pack)
    show ?thesis
    proof (cases "getProductByCode s (liters_code (pb_productCode b))")
      case (Inl e)
      then obtain c where e: "e = UnknownProduct c"
        by (auto simp add: getProductByCode_def split: option.splits)
      from run c1 pk Inl have "s' = s2" "out = Inl e"
        by (simp_all add: production_commit_def Let_def s2_def [symmetric] look2)
      with Inl e k2 show ?thesis by auto
    next
      case lt: (Inr litersProd)
      define s3 where "s3 = applyTx PRODUCTION FG (p_id pack) (of_int (pb_count b)) u s2"
      define s4 where "s4 = applyTx PRODUCTION FG (p_id litersProd) (of_int l) u s3"
      have k3: "committed s ((raw_entries R l u fs raws @ [gallon_entry G g b u]) @
                  [fg_entry PRODUCTION FG pack (of_int (pb_count b)) u]) s3"
        unfolding s3_def fg_entry_def using k2 by (rule committed_applyTx)
      have k4: "committed s (((raw_entries R l u fs raws @ [gallon_entry G g b u]) @
                  [fg_entry PRODUCTION FG pack (of_int (pb_count b)) u]) @
                  [fg_entry PRODUCTION FG litersProd (of_int l) u]) s4"
        unfolding s4_def fg_entry_def [of _ _ litersProd]
        using k3 by (rule committed_applyTx)
      from run c1 pk lt have "s' = s4"
        and "out = Inr \<lparr>pr_productCode = pb_productCode b, pr_gallonSize = pb_gallonSize b,
                       pr_count = pb_count b, pr_liters = l, pr_consumed = consumed_of l fs\<rparr>"
        by (simp_all add: production_commit_def Let_def s2_def [symmetric] look2
              s3_def [symmetric] s4_def [symmetric])
      with pk lt k4 show ?thesis by auto
    qed
  qed
qed

lemma production_outcome:
  assumes run: "production s u b = (s', out)"
  shows "(s' = s \<and> (\<exists>e. out = Inl e))
       \<or> (\<exists>R G FG raws g.
            production_ready s b R G FG raws g \<and>
            production_commit s u b (liters_of b) R G FG (formula_for s (pb_productCode b)) g = (s', out))"
proof (cases "s' = s \<and> (\<exists>e. out = Inl e)")
  case True
  then show ?thesis ..
next
  case False
  with run obtain R G FG g where sch: "production_schema b"
    and R: "getWarehouseId s ''RAW_WH'' = Inr R"
    and G: "getWarehouseId s ''GAL_WH'' = Inr G"
    and FG: "getWarehouseId s ''FG_WH'' = Inr FG"
    and fs: "formula_for s (pb_productCode b) \<noteq> []"
    and chk: "check_raw s R (liters_of b) (formula_for s (pb_productCode b)) = None"
    and g: "getProductByCode s (gallon_code (pb_gallonSize b)) = Inr g"
    and avail: "\<not> getInv s G (p_id g) < of_int (pb_count b)"
    and com: "production_commit s u b (liters_of b) R G FG (formula_for s (pb_productCode b)) g = (s', out)"
    by (auto simp add: production_def Let_def liters_of_def split: if_splits sum.splits option.splits)
  from check_raw_None [OF chk] obtain raws where
    "list_all2 (\<lambda>f raw. getProductByCode s (f_rawCode f) = Inr raw \<and>
                  f_kgPerLiter f * of_int (liters_of b) \<le> getInv s R (p_id raw))
       (formula_for s (pb_productCode b)) raws" ..
  with sch R G FG fs g avail have "production_ready s b R G FG raws g"
    by (simp add: production_ready_def)
  with com show ?thesis by blast
qed

lemma find_Some_D: "find P xs = Some x \<Longrightarrow> x \<in> set xs \<and> P x"
  by (induction xs) (auto split: if_splits)

lemma getProductByCode_Inr:
  "getProductByCode s c = Inr p \<Longrightarrow> p \<in> set (products s) \<and> p_code p = c"
  by (auto simp add: getProductByCode_def split: option.splits dest: find_Some_D)

lemma getWarehouseId_Inr:
  "getWarehouseId s c = Inr i \<Longrightarrow> \<exists>w \<in> set (warehouses s). wh_code w = c \<and> wh_id w = i"
  by (auto simp add: getWarehouseId_def split: option.splits dest: find_Some_D)

lemma product_ids_differ:
  assumes "wf_db s" "getProductByCode s c1 = Inr p1" "getProductByCode s c2 = Inr p2" "c1 \<noteq> c2"
  shows "p_id p1 \<noteq> p_id p2"
proof
  assume eq: "p_id p1 = p_id p2"
  from assms(2,3) have m: "p1 \<in> set (products s)" "p2 \<in> set (products s)"
    and c: "p_code p1 = c1" "p_code p2 = c2"
    by (auto dest: getProductByCode_Inr)
  from assms(1) have "inj_on p_id (set (products s))"
    by (simp add: wf_db_def distinct_map)
  with m eq have "p1 = p2" by (auto dest: inj_onD)
  with c assms(4) show False by simp
qed

lemma warehouse_ids_differ:
  assumes "wf_db s" "getWarehouseId s c1 = Inr i1" "getWarehouseId s c2 = Inr i2" "c1 \<noteq> c2"
  shows "i1 \<noteq> i2"
proof
  assume eq: "i1 = i2"
  from assms(2,3) obtain w1 w2 where m: "w1 \<in> set (warehouses s)" "w2 \<in> set (warehouses s)"
    and c: "wh_code w1 = c1" "wh_code w2 = c2" and i: "wh_id w1 = i1" "wh_id w2 = i2"
    by (auto dest!: getWarehouseId_Inr)
  from assms(1) have "inj_on wh_id (set (warehouses s))"
    by (simp add: wf_db_def distinct_map)
  with m eq i have "w1 = w2" by (auto dest: inj_onD)
  with c assms(4) show False by simp
qed

lemma formula_for_distinct:
  assumes "wf_db s"
  shows "distinct (map f_rawCode (formula_for s c))"
proof -
  from assms have d: "distinct (map (\<lambda>f. (f_productCode f, f_rawCode f)) (formulaPerLiter s))"
    by (simp add: wf_db_def)
  have "distinct (map (\<lambda>f. (f_productCode f, f_rawCode f)) (formula_for s c))"
    unfolding formula_for_def using d by (rule distinct_map_filter)
  then have "inj_on (\<lambda>f. (f_productCode f, f_rawCode f)) (set (formula_for s c))"
    and dd: "distinct (formula_for s c)"
    by (simp_all add: distinct_map)
  then have "inj_on f_rawCode (set (formula_for s c))"
    by (auto simp add: inj_on_def formula_for_def)
  with dd show ?thesis by (simp add: distinct_map)
qed

lemma raw_ids_distinct:
  assumes wf: "wf_db s"
    and all: "list_all2 (\<lambda>f raw. getProductByCode s (f_rawCode f) = Inr raw) fs raws"
    and d: "distinct (map f_rawCode fs)"
  shows "distinct (map p_id raws)"
  using all d
proof (induction fs raws rule: list_all2_induct)
  case Nil
  then show ?case by simp
next
  case (Cons f fs raw raws)
  have "p_id raw \<noteq> p_id r" if "r \<in> set raws" for r
  proof -
    from that obtain i where i: "i < length raws" "r = raws ! i"
      by (auto simp add: in_set_conv_nth)
    with Cons.hyps(2) have "fs ! i \<in> set fs"
      and "getProductByCode s (f_rawCode (fs ! i)) = Inr r"
      by (auto simp add: list_all2_conv_all_nth)
    then obtain f' where f': "f' \<in> set fs"
      and r: "getProductByCode s (f_rawCode f') = Inr r"
      by blast
    from f' Cons.prems have "f_rawCode f \<noteq> f_rawCode f'" by auto
    with wf Cons.hyps(1) r show ?thesis by (rule product_ids_differ)
  qed
  with Cons show ?case by auto
qed

lemma delta_sum_raw_entries_other:
  "w \<noteq> R \<or> p \<notin> p_id ` set raws \<Longrightarrow> delta_sum w p (raw_entries R l u fs raws) = 0"
proof (induction fs arbitrary: raws)
  case Nil
  then show ?case by (simp add: raw_entries_def)
next
  case (Cons f fs)
  then show ?case
    by (cases raws) (auto simp add: raw_entries_def tx_on_def)
qed

lemma delta_sum_raw_entries_nth:
  "length fs = length raws \<Longrightarrow> distinct (map p_id raws) \<Longrightarrow> i < length raws \<Longrightarrow>
   delta_sum R (p_id (raws ! i)) (raw_entries R l u fs raws) = - (f_kgPerLiter (fs ! i) * of_int l)"
proof (induction fs raws arbitrary: i rule: list_induct2)
  case Nil
  then show ?case by simp
next
  case (Cons f fs raw raws)
  have split: "raw_entries R l u (f # fs) (raw # raws) =
      \<lparr>tx_txType = PRODUCTION, tx_warehouseId = R, tx_productId = p_id raw,
       tx_qty = - (f_kgPerLiter f * of_int l), tx_userId = u\<rparr> # raw_entries R l u fs raws"
    by (simp add: raw_entries_def)
  show ?case
  proof (cases i)
    case 0
    from Cons.prems have "p_id raw \<notin> p_id ` set raws" by auto
    then have "delta_sum R (p_id raw) (raw_entries R l u fs raws) = 0"
      by (simp add: delta_sum_raw_entries_other)
    with 0 show ?thesis by (simp add: split tx_on_def)
  next
    case (Suc j)
    with Cons.prems have j: "j < length raws" and d: "distinct (map p_id raws)"
      and notin: "p_id raw \<notin> p_id ` set raws"
      by auto
    from j have "p_id (raws ! j) \<in> p_id ` set raws" by simp
    with notin have ne: "p_id (raws ! j) \<noteq> p_id raw" by auto
    from Cons.IH [OF d j] Suc ne show ?thesis
      by (simp add: split tx_on_def)
  qed
qed

lemma pack_liters_code_differ: "pack_code c g \<noteq> liters_code c"
  by (simp add: pack_code_def liters_code_def)

lemma production_success_committed:
  assumes run: "production s u b = (s', Inr res)"
  shows "\<exists>R G FG raws g pack litersProd.
           production_ready s b R G FG raws g \<and>
           getProductByCode s (pack_code (pb_productCode b) (pb_gallonSize b)) = Inr pack \<and>
           getProductByCode s (liters_code (pb_productCode b)) = Inr litersProd \<and>
           res = production_echo b (formula_for s (pb_productCode b)) \<and>
           committed s (raw_entries R (liters_of b) u (formula_for s (pb_productCode b)) raws @
                          [gallon_entry G g b u,
                           fg_entry PRODUCTION FG pack (of_int (pb_count b)) u,
                           fg_entry PRODUCTION FG litersProd (of_int (liters_of b)) u]) s'"
proof -
  from production_outcome [OF run] obtain R G FG raws g where
    ready: "production_ready s b R G FG raws g"
    and com: "production_commit s u b (liters_of b) R G FG (formula_for s (pb_productCode b)) g
                = (s', Inr res)"
    by auto
  from ready have "list_all2 (\<lambda>f raw. getProductByCode s (f_rawCode f) = Inr raw)
                     (formula_for s (pb_productCode b)) raws"
    by (auto simp add: production_ready_def elim: list_all2_mono)
  from production_commit_outcome [OF this com] obtain pack litersProd where
    "getProductByCode s (pack_code (pb_productCode b) (pb_gallonSize b)) = Inr pack"
    "getProductByCode s (liters_code (pb_productCode b)) = Inr litersProd"
    "res = production_echo b (formula_for s (pb_productCode b))"
    "committed s (raw_entries R (liters_of b) u (formula_for s (pb_productCode b)) raws @
                          [gallon_entry G g b u,
                           fg_entry PRODUCTION FG pack (of_int (pb_count b)) u,
                           fg_entry PRODUCTION FG litersProd (of_int (liters_of b)) u]) s'"
    by (auto simp add: production_echo_def)
  with ready show ?thesis by blast
qed

section \<open>Purchases, sales and sequences of requests\<close>

lemma committed_trans:
  "committed s es s1 \<Longrightarrow> committed s1 fs s2 \<Longrightarrow> committed s (es @ fs) s2"
  by (auto simp add: committed_def same_catalog_def)

lemma purchase_items_outcome:
  "committed s0 es s \<Longrightarrow> purchase_items R G u its s = (s', out) \<Longrightarrow>
   \<exists>n ps. n \<le> length its \<and>
     list_all2 (\<lambda>it p. getProductByCode s0 (fst it) = Inr p \<and> (p_type p = RAW \<or> p_type p = GALLON))
       (take n its) ps \<and>
     committed s0 (es @ purchase_entries R G u (take n its) ps) s' \<and>
     (case out of Inr _ \<Rightarrow> n = length its | Inl e \<Rightarrow> n < length its)"
proof (induction its arbitrary: s es)
  case Nil
  then have "list_all2 (\<lambda>it p. getProductByCode s0 (fst it) = Inr p \<and> (p_type p = RAW \<or> p_type p = GALLON))
       (take 0 []) [] \<and>
     committed s0 (es @ purchase_entries R G u (take 0 []) []) s' \<and>
     (case out of Inr _ \<Rightarrow> (0::nat) = length ([]::(string \<times> rat) list) | Inl e \<Rightarrow> (0::nat) < length ([]::(string \<times> rat) list))"
    by (auto simp add: purchase_entries_def)
  then show ?case by blast
next
  case (Cons it its)
  obtain code q where it: "it = (code, q)" by (cases it)
  let ?stop = "list_all2 (\<lambda>it p. getProductByCode s0 (fst it) = Inr p \<and> (p_type p = RAW \<or> p_type p = GALLON))
       (take 0 (it # its)) [] \<and>
     committed s0 (es @ purchase_entries R G u (take 0 (it # its)) []) s \<and> 0 < length (it # its)"
  have stop: ?stop using Cons.prems(1) by (simp add: purchase_entries_def)
  have look: "getProductByCode s c = getProductByCode s0 c" for c
    using Cons.prems(1) by (rule committed_lookup)
  show ?case
  proof (cases "getProductByCode s0 code")
    case (Inl e)
    with Cons.prems(2) it look have "s' = s" "out = Inl e" by simp_all
    with stop show ?thesis by (intro exI [of _ 0] exI [of _ "[]"]) simp
  next
    case (Inr p)
    let ?w = "if p_type p = RAW then R else G"
    show ?thesis
    proof (cases "(p_type p = RAW \<or> p_type p = GALLON) \<and> ?w \<noteq> 0")
      case False
      with Cons.prems(2) it look Inr have "s' = s" "out = Inl (DisallowedPurchaseTarget code)"
        by (auto simp add: Let_def split: if_splits)
      with stop show ?thesis by (intro exI [of _ 0] exI [of _ "[]"]) simp
    next
      case True
      let ?e = "\<lparr>tx_txType = PURCHASE, tx_warehouseId = ?w, tx_productId = p_id p,
                 tx_qty = q, tx_userId = u\<rparr>"
      from True Cons.prems(2) it look Inr
      have rest: "purchase_items R G u its (applyTx PURCHASE ?w (p_id p) q u s) = (s', out)"
        by (auto simp add: Let_def split: if_splits)
      have "committed s0 (es @ [?e]) (applyTx PURCHASE ?w (p_id p) q u s)"
        using Cons.prems(1) by (rule committed_applyTx)
      from Cons.IH [OF this rest] obtain n ps where n: "n \<le> length its"
        and all: "list_all2 (\<lambda>it p. getProductByCode s0 (fst it) = Inr p \<and> (p_type p = RAW \<or> p_type p = GALLON))
                    (take n its) ps"
        and com: "committed s0 ((es @ [?e]) @ purchase_entries R G u (take n its) ps) s'"
        and out: "case out of Inr _ \<Rightarrow> n = length its | Inl e \<Rightarrow> n < length its"
        by blast
      have "Suc n \<le> length (it # its)" using n by simp
      moreover have "list_all2 (\<lambda>it p. getProductByCode s0 (fst it) = Inr p \<and> (p_type p = RAW \<or> p_type p = GALLON))
                    (take (Suc n) (it # its)) (p # ps)"
        using all Inr True it by simp
      moreover have "committed s0 (es @ purchase_entries R G u (take (Suc n) (it # its)) (p # ps)) s'"
        using com it by (simp add: purchase_entries_def)
      moreover have "case out of Inr _ \<Rightarrow> Suc n = length (it # its) | Inl e \<Rightarrow> Suc n < length (it # its)"
        using out by (simp split: sum.splits)
      ultimately show ?thesis by blast
    qed
  qed
qed

lemma purchases_outcome:
  assumes run: "purchases s u items = (s', out)"
  shows "(s' = s \<and> (\<exists>e. out = Inl e))
       \<or> (\<exists>R G n ps.
            purchases_schema items \<and>
            getWarehouseId s ''RAW_WH'' = Inr R \<and> getWarehouseId s ''GAL_WH'' = Inr G \<and>
            n \<le> length items \<and>
            list_all2 (\<lambda>it p. getProductByCode s (fst it) = Inr p \<and> (p_type p = RAW \<or> p_type p = GALLON))
              (take n items) ps \<and>
            committed s (purchase_entries R G u (take n items) ps) s' \<and>
            (case out of Inr _ \<Rightarrow> n = length items | Inl e \<Rightarrow> n < length items))"
proof (cases "s' = s \<and> (\<exists>e. out = Inl e)")
  case True
  then show ?thesis ..
next
  case False
  with run obtain R G where sch: "purchases_schema items"
    and R: "getWarehouseId s ''RAW_WH'' = Inr R" and G: "getWarehouseId s ''GAL_WH'' = Inr G"
    and it: "purchase_items R G u items s = (s', out)"
    by (auto simp add: purchases_def split: if_splits sum.splits)
  from purchase_items_outcome [OF committed_refl it] sch R G show ?thesis
    by auto
qed

lemma sales_outcome:
  assumes run: "sales s u b = (s', out)"
  shows "(s' = s \<and> (\<exists>e. out = Inl e))
       \<or> (\<exists>FG pack litersProd.
            production_schema b \<and>
            getWarehouseId s ''FG_WH'' = Inr FG \<and>
            getProductByCode s (pack_code (pb_productCode b) (pb_gallonSize b)) = Inr pack \<and>
            getProductByCode s (liters_code (pb_productCode b)) = Inr litersProd \<and>
            of_int (pb_count b) \<le> getInv s FG (p_id pack) \<and>
            of_int (liters_of b) \<le> getInv s FG (p_id litersProd) \<and>
            out = Inr \<lparr>sr_productCode = pb_productCode b, sr_gallonSize = pb_gallonSize b,
                       sr_count = pb_count b, sr_liters = liters_of b\<rparr> \<and>
            committed s [fg_entry SALE FG pack (- of_int (pb_count b)) u,
                         fg_entry SALE FG litersProd (- of_int (liters_of b)) u] s')"
proof (cases "s' = s \<and> (\<exists>e. out = Inl e)")
  case True
  then show ?thesis ..
next
  case False
  from run False have sch: "production_schema b"
    by (auto simp add: sales_def split: if_splits)
  from run False sch obtain FG where FG: "getWarehouseId s ''FG_WH'' = Inr FG"
    by (cases "getWarehouseId s ''FG_WH''") (auto simp add: sales_def Let_def)
  from run False sch FG obtain pack where
    pk: "getProductByCode s (pack_code (pb_productCode b) (pb_gallonSize b)) = Inr pack"
    by (cases "getProductByCode s (pack_code (pb_productCode b) (pb_gallonSize b))")
      (auto simp add: sales_def Let_def)
  from run False sch FG pk obtain lit where
    lt: "getProductByCode s (liters_code (pb_productCode b)) = Inr lit"
    by (cases "getProductByCode s (liters_code (pb_productCode b))")
      (auto simp add: sales_def Let_def)
  from run False sch FG pk lt have a1: "\<not> getInv s FG (p_id pack) < of_int (pb_count b)"
    by (auto simp add: sales_def Let_def)
  from run False sch FG pk lt a1 have a2: "\<not> getInv s FG (p_id lit) < of_int (liters_of b)"
    by (auto simp add: sales_def Let_def liters_of_def simp del: of_int_mult)
  from run sch FG pk lt a1 a2
  have s': "s' = applyTx SALE FG (p_id lit) (- of_int (liters_of b)) u
                    (applyTx SALE FG (p_id pack) (- of_int (pb_count b)) u s)"
    and out: "out = Inr \<lparr>sr_productCode = pb_productCode b, sr_gallonSize = pb_gallonSize b,
                       sr_count = pb_count b, sr_liters = liters_of b\<rparr>"
    by (simp_all add: sales_def Let_def liters_of_def del: of_int_mult)
  have "committed s ([] @ [fg_entry SALE FG pack (- of_int (pb_count b)) u])
          (applyTx SALE FG (p_id pack) (- of_int (pb_count b)) u s)"
    unfolding fg_entry_def using committed_refl by (rule committed_applyTx)
  then have "committed s (([] @ [fg_entry SALE FG pack (- of_int (pb_count b)) u]) @
                 [fg_entry SALE FG lit (- of_int (liters_of b)) u]) s'"
    unfolding s' fg_entry_def [of _ _ lit] by (rule committed_applyTx)
  with sch FG pk lt a1 a2 out show ?thesis by auto
qed

lemma exec_committed: "\<exists>es. committed s es (exec s r)"
proof (cases r)
  case (Production u b)
  obtain s' out where run: "production s u b = (s', out)" by (cases "production s u b")
  from production_outcome [OF run] show ?thesis
  proof
    assume "s' = s \<and> (\<exists>e. out = Inl e)"
    with run Production committed_refl [of s] show ?thesis by auto
  next
    assume "\<exists>R G FG raws g. production_ready s b R G FG raws g \<and>
      production_commit s u b (liters_of b) R G FG (formula_for s (pb_productCode b)) g = (s', out)"
    then obtain R G FG raws g where ready: "production_ready s b R G FG raws g"
      and com: "production_commit s u b (liters_of b) R G FG (formula_for s (pb_productCode b)) g = (s', out)"
      by blast
    from ready have "list_all2 (\<lambda>f raw. getProductByCode s (f_rawCode f) = Inr raw)
                     (formula_for s (pb_productCode b)) raws"
      by (auto simp add: production_ready_def elim: list_all2_mono)
    from production_commit_outcome [OF this com] obtain es where "committed s es s'" by blast
    with run Production show ?thesis by auto
  qed
next
  case (Purchases u items)
  obtain s' out where run: "purchases s u items = (s', out)" by (cases "purchases s u items")
  from purchases_outcome [OF run] committed_refl [of s] have "\<exists>es. committed s es s'" by blast
  with run Purchases show ?thesis by simp
next
  case (Sales u b)
  obtain s' out where run: "sales s u b = (s', out)" by (cases "sales s u b")
  from sales_outcome [OF run] committed_refl [of s] have "\<exists>es. committed s es s'" by blast
  with run Sales show ?thesis by simp
qed

lemma run_committed: "\<exists>es. committed s es (run s rs)"
proof (induction rs arbitrary: s)
  case Nil
  show ?case using committed_refl [of s] by (auto simp add: run_def)
next
  case (Cons r rs)
  from exec_committed obtain es where 1: "committed s es (exec s r)" ..
  from Cons.IH obtain fs where 2: "committed (exec s r) fs (run (exec s r) rs)" ..
  from committed_trans [OF 1 2] show ?case by (auto simp add: run_def)
qed

section \<open>Stock never goes negative\<close>

lemma production_schema_pos:
  "production_schema b \<Longrightarrow> 0 < pb_count b \<and> 0 < liters_of b"
  by (auto simp add: production_schema_def liters_of_def)

lemma production_success_nonneg:
  assumes wf: "wf_db s" and nn: "nonneg s" and run: "production s u b = (s', Inr res)"
  shows "nonneg s'"
proof -
  let ?fs = "formula_for s (pb_productCode b)"
  let ?l = "liters_of b"
  from production_success_committed [OF run] obtain R G FG raws g pack lit where
    ready: "production_ready s b R G FG raws g"
    and pk: "getProductByCode s (pack_code (pb_productCode b) (pb_gallonSize b)) = Inr pack"
    and lt: "getProductByCode s (liters_code (pb_productCode b)) = Inr lit"
    and com: "committed s (raw_entries R ?l u ?fs raws @
                          [gallon_entry G g b u,
                           fg_entry PRODUCTION FG pack (of_int (pb_count b)) u,
                           fg_entry PRODUCTION FG lit (of_int ?l) u]) s'"
    by blast
  from ready have R: "getWarehouseId s ''RAW_WH'' = Inr R"
    and G: "getWarehouseId s ''GAL_WH'' = Inr G"
    and FG: "getWarehouseId s ''FG_WH'' = Inr FG"
    and sch: "production_schema b"
    and availG: "of_int (pb_count b) \<le> getInv s G (p_id g)"
    and raws: "list_all2 (\<lambda>f raw. getProductByCode s (f_rawCode f) = Inr raw) ?fs raws"
    and enough: "list_all2 (\<lambda>f raw. f_kgPerLiter f * of_int ?l \<le> getInv s R (p_id raw)) ?fs raws"
    by (auto simp add: production_ready_def elim: list_all2_mono)
  have RG: "R \<noteq> G" using wf R G by (rule warehouse_ids_differ) simp
  have RF: "R \<noteq> FG" using wf R FG by (rule warehouse_ids_differ) simp
  have GF: "G \<noteq> FG" using wf G FG by (rule warehouse_ids_differ) simp
  from production_schema_pos [OF sch] have pos: "0 < pb_count b" "0 < ?l" by simp_all
  have bal: "getInv s' w p = getInv s w p +
      (delta_sum w p (raw_entries R ?l u ?fs raws) +
       ((if G = w \<and> p_id g = p then - of_int (pb_count b) else 0) +
        ((if FG = w \<and> p_id pack = p then of_int (pb_count b) else 0) +
         (if FG = w \<and> p_id lit = p then of_int ?l else 0))))" for w p
    using com by (simp add: committed_def gallon_entry_def fg_entry_def tx_on_def)
  have len: "length ?fs = length raws"
    using raws by (rule list_all2_lengthD)
  have dist: "distinct (map p_id raws)"
    using wf raws formula_for_distinct [OF wf] by (rule raw_ids_distinct)
  have "0 \<le> getInv s' w p" for w p
  proof (cases "w = R \<and> p \<in> p_id ` set raws")
    case True
    then obtain i where i: "i < length raws" and p: "p = p_id (raws ! i)"
      by (auto simp add: in_set_conv_nth)
    from enough i len have "f_kgPerLiter (?fs ! i) * of_int ?l \<le> getInv s R (p_id (raws ! i))"
      by (simp add: list_all2_conv_all_nth)
    with delta_sum_raw_entries_nth [OF len dist i, of R ?l u] True p RG RF
    show ?thesis by (simp add: bal)
  next
    case False
    then have z: "delta_sum w p (raw_entries R ?l u ?fs raws) = 0"
      by (intro delta_sum_raw_entries_other) auto
    from nn have n0: "0 \<le> getInv s w p" by (simp add: nonneg_def)
    show ?thesis
    proof (cases "G = w \<and> p_id g = p")
      case True
      with availG GF z show ?thesis by (auto simp add: bal)
    next
      case False
      with z n0 pos show ?thesis by (simp add: bal)
    qed
  qed
  then show ?thesis by (simp add: nonneg_def)
qed

lemma production_insufficiency_unchanged:
  assumes run: "production s u b = (s', Inl e)" and e: "insufficiency e"
  shows "s' = s"
proof -
  from production_outcome [OF run] show ?thesis
  proof
    assume "s' = s \<and> (\<exists>e'. Inl e = Inl e')"
    then show ?thesis ..
  next
    assume "\<exists>R G FG raws g. production_ready s b R G FG raws g \<and>
      production_commit s u b (liters_of b) R G FG (formula_for s (pb_productCode b)) g = (s', Inl e)"
    then obtain R G FG raws g where ready: "production_ready s b R G FG raws g"
      and com: "production_commit s u b (liters_of b) R G FG (formula_for s (pb_productCode b)) g
                  = (s', Inl e)"
      by blast
    from ready have "list_all2 (\<lambda>f raw. getProductByCode s (f_rawCode f) = Inr raw)
                     (formula_for s (pb_productCode b)) raws"
      by (auto simp add: production_ready_def elim: list_all2_mono)
    from production_commit_outcome [OF this com] obtain c where "e = UnknownProduct c" by auto
    with e show ?thesis by simp
  qed
qed

lemma sales_success_nonneg:
  assumes wf: "wf_db s" and nn: "nonneg s" and run: "sales s u b = (s', Inr res)"
  shows "nonneg s'"
proof -
  from sales_outcome [OF run] obtain FG pack lit where
    pk: "getProductByCode s (pack_code (pb_productCode b) (pb_gallonSize b)) = Inr pack"
    and lt: "getProductByCode s (liters_code (pb_productCode b)) = Inr lit"
    and a1: "of_int (pb_count b) \<le> getInv s FG (p_id pack)"
    and a2: "of_int (liters_of b) \<le> getInv s FG (p_id lit)"
    and com: "committed s [fg_entry SALE FG pack (- of_int (pb_count b)) u,
                         fg_entry SALE FG lit (- of_int (liters_of b)) u] s'"
    by auto
  have pl: "p_id pack \<noteq> p_id lit"
    using wf pk lt pack_liters_code_differ by (rule product_ids_differ)
  have "0 \<le> getInv s' w p" for w p
  proof -
    from nn have "0 \<le> getInv s w p" by (simp add: nonneg_def)
    with com a1 a2 pl show ?thesis
      by (auto simp add: committed_def fg_entry_def tx_on_def)
  qed
  then show ?thesis by (simp add: nonneg_def)
qed

lemma sales_failure_unchanged:
  assumes run: "sales s u b = (s', Inl e)"
  shows "s' = s"
  using sales_outcome [OF run] by auto

section \<open>Which balances a handler touches\<close>

lemma delta_sum_nonzero:
  "delta_sum w p es \<noteq> 0 \<Longrightarrow> \<exists>e \<in> set es. tx_on w p e"
  by (induction es) (auto split: if_splits)

lemma committed_changed:
  assumes "committed s es s'" and "getInv s' w p \<noteq> getInv s w p"
  shows "\<exists>e \<in> set es. tx_warehouseId e = w \<and> tx_productId e = p"
proof -
  from assms have "delta_sum w p es \<noteq> 0" by (auto simp add: committed_def)
  then have "\<exists>e \<in> set es. tx_on w p e" by (rule delta_sum_nonzero)
  then show ?thesis by (simp add: tx_on_def)
qed

lemma names_pairI:
  "getWarehouseId s whCode = Inr w \<Longrightarrow> getProductByCode s prodCode = Inr pr \<Longrightarrow>
   names_pair s whCode prodCode w (p_id pr)"
  by (simp add: names_pair_def)

lemma raw_entries_named:
  assumes all: "list_all2 (\<lambda>f raw. getProductByCode s (f_rawCode f) = Inr raw) fs raws"
    and R: "getWarehouseId s ''RAW_WH'' = Inr R"
    and e: "e \<in> set (raw_entries R l u fs raws)"
  shows "\<exists>f \<in> set fs. names_pair s ''RAW_WH'' (f_rawCode f) (tx_warehouseId e) (tx_productId e)"
proof -
  from e obtain f raw where z: "(f, raw) \<in> set (zip fs raws)"
    and e': "tx_warehouseId e = R" "tx_productId e = p_id raw"
    by (auto simp add: raw_entries_def)
  from all z have "getProductByCode s (f_rawCode f) = Inr raw"
    by (auto simp add: list_all2_iff)
  with R have "names_pair s ''RAW_WH'' (f_rawCode f) R (p_id raw)" by (rule names_pairI)
  moreover from z have "f \<in> set fs" by (rule set_zip_leftD)
  ultimately show ?thesis using e' by auto
qed

lemma production_frame:
  assumes run: "production s u b = (s', Inr res)"
  shows "same_catalog s s' \<and>
    (\<forall>w p. getInv s' w p \<noteq> getInv s w p \<longrightarrow>
       (\<exists>f \<in> set (formula_for s (pb_productCode b)). names_pair s ''RAW_WH'' (f_rawCode f) w p) \<or>
       names_pair s ''GAL_WH'' (gallon_code (pb_gallonSize b)) w p \<or>
       names_pair s ''FG_WH'' (pack_code (pb_productCode b) (pb_gallonSize b)) w p \<or>
       names_pair s ''FG_WH'' (liters_code (pb_productCode b)) w p)"
proof -
  let ?fs = "formula_for s (pb_productCode b)"
  let ?l = "liters_of b"
  from production_success_committed [OF run] obtain R G FG raws g pack lit where
    ready: "production_ready s b R G FG raws g"
    and pk: "getProductByCode s (pack_code (pb_productCode b) (pb_gallonSize b)) = Inr pack"
    and lt: "getProductByCode s (liters_code (pb_productCode b)) = Inr lit"
    and com: "committed s (raw_entries R ?l u ?fs raws @
                          [gallon_entry G g b u,
                           fg_entry PRODUCTION FG pack (of_int (pb_count b)) u,
                           fg_entry PRODUCTION FG lit (of_int ?l) u]) s'"
    by blast
  from ready have R: "getWarehouseId s ''RAW_WH'' = Inr R"
    and G: "getWarehouseId s ''GAL_WH'' = Inr G"
    and FG: "getWarehouseId s ''FG_WH'' = Inr FG"
    and g: "getProductByCode s (gallon_code (pb_gallonSize b)) = Inr g"
    and raws: "list_all2 (\<lambda>f raw. getProductByCode s (f_rawCode f) = Inr raw) ?fs raws"
    by (auto simp add: production_ready_def elim: list_all2_mono)
  have "(\<exists>f \<in> set ?fs. names_pair s ''RAW_WH'' (f_rawCode f) w p) \<or>
       names_pair s ''GAL_WH'' (gallon_code (pb_gallonSize b)) w p \<or>
       names_pair s ''FG_WH'' (pack_code (pb_productCode b) (pb_gallonSize b)) w p \<or>
       names_pair s ''FG_WH'' (liters_code (pb_productCode b)) w p"
    if ch: "getInv s' w p \<noteq> getInv s w p" for w p
  proof -
    from committed_changed [OF com ch] obtain e where
      e: "e \<in> set (raw_entries R ?l u ?fs raws) \<or> e = gallon_entry G g b u \<or>
          e = fg_entry PRODUCTION FG pack (of_int (pb_count b)) u \<or>
          e = fg_entry PRODUCTION FG lit (of_int ?l) u"
      and on: "tx_warehouseId e = w" "tx_productId e = p"
      by auto
    from e show ?thesis
    proof (elim disjE)
      assume "e \<in> set (raw_entries R ?l u ?fs raws)"
      from raw_entries_named [OF raws R this] on show ?thesis by simp
    next
      assume "e = gallon_entry G g b u"
      with on G g show ?thesis by (simp add: names_pair_def gallon_entry_def)
    next
      assume "e = fg_entry PRODUCTION FG pack (of_int (pb_count b)) u"
      with on FG pk show ?thesis by (simp add: names_pair_def fg_entry_def)
    next
      assume "e = fg_entry PRODUCTION FG lit (of_int ?l) u"
      with on FG lt show ?thesis by (simp add: names_pair_def fg_entry_def)
    qed
  qed
  moreover from com have "same_catalog s s'" by (simp add: committed_def)
  ultimately show ?thesis by blast
qed

lemma sales_frame:
  assumes run: "sales s u b = (s', Inr res)"
  shows "same_catalog s s' \<and>
    (\<forall>w p. getInv s' w p \<noteq> getInv s w p \<longrightarrow>
       names_pair s ''FG_WH'' (pack_code (pb_productCode b) (pb_gallonSize b)) w p \<or>
       names_pair s ''FG_WH'' (liters_code (pb_productCode b)) w p)"
proof -
  from sales_outcome [OF run] obtain FG pack lit where
    FG: "getWarehouseId s ''FG_WH'' = Inr FG"
    and pk: "getProductByCode s (pack_code (pb_productCode b) (pb_gallonSize b)) = Inr pack"
    and lt: "getProductByCode s (liters_code (pb_productCode b)) = Inr lit"
    and com: "committed s [fg_entry SALE FG pack (- of_int (pb_count b)) u,
                         fg_entry SALE FG lit (- of_int (liters_of b)) u] s'"
    by auto
  have "names_pair s ''FG_WH'' (pack_code (pb_productCode b) (pb_gallonSize b)) w p \<or>
       names_pair s ''FG_WH'' (liters_code (pb_productCode b)) w p"
    if ch: "getInv s' w p \<noteq> getInv s w p" for w p
    using committed_changed [OF com ch] FG pk lt
    by (auto simp add: names_pair_def fg_entry_def)
  moreover from com have "same_catalog s s'" by (simp add: committed_def)
  ultimately show ?thesis by blast
qed

lemma purchases_frame:
  assumes run: "purchases s u items = (s', Inr res)"
  shows "same_catalog s s' \<and>
    (\<forall>w p. getInv s' w p \<noteq> getInv s w p \<longrightarrow>
       (\<exists>it \<in> set items. names_pair s ''RAW_WH'' (fst it) w p \<or> names_pair s ''GAL_WH'' (fst it) w p))"
proof -
  from purchases_outcome [OF run] obtain R G n ps where
    R: "getWarehouseId s ''RAW_WH'' = Inr R" and G: "getWarehouseId s ''GAL_WH'' = Inr G"
    and all: "list_all2 (\<lambda>it p. getProductByCode s (fst it) = Inr p \<and> (p_type p = RAW \<or> p_type p = GALLON))
              (take n items) ps"
    and com: "committed s (purchase_entries R G u (take n items) ps) s'"
    and n: "n = length items"
    by auto
  have "\<exists>it \<in> set items. names_pair s ''RAW_WH'' (fst it) w p \<or> names_pair s ''GAL_WH'' (fst it) w p"
    if ch: "getInv s' w p \<noteq> getInv s w p" for w p
  proof -
    from committed_changed [OF com ch] n obtain it pr where z: "(it, pr) \<in> set (zip items ps)"
      and w: "w = (if p_type pr = RAW then R else G)" and p: "p = p_id pr"
      by (auto simp add: purchase_entries_def)
    from all n z have look: "getProductByCode s (fst it) = Inr pr"
      by (auto simp add: list_all2_iff)
    from z have it: "it \<in> set items" by (rule set_zip_leftD)
    show ?thesis
    proof (cases "p_type pr = RAW")
      case True
      with w p names_pairI [OF R look] have "names_pair s ''RAW_WH'' (fst it) w p" by simp
      with it show ?thesis by blast
    next
      case False
      with w p names_pairI [OF G look] have "names_pair s ''GAL_WH'' (fst it) w p" by simp
      with it show ?thesis by blast
    qed
  qed
  moreover from com have "same_catalog s s'" by (simp add: committed_def)
  ultimately show ?thesis by blast
qed

section \<open>Ledger and balances; packs and liters\<close>

lemma committed_drift:
  assumes "committed s es s'"
  shows "getInv s' w p - ledger_sum s' w p = getInv s w p - ledger_sum s w p"
  using assms by (simp add: committed_def ledger_sum_def)

lemma ledger_consistent_preserved:
  assumes "\<forall>w p. getInv s w p = ledger_sum s w p"
  shows "getInv (run s rs) w p = ledger_sum (run s rs) w p"
  using committed_drift [of s _ "run s rs" w p] run_committed [of s rs] assms by auto

lemma liters_code_inj [simp]: "liters_code F' = liters_code F \<longleftrightarrow> F' = F"
  by (simp add: liters_code_def)


















section \<open>The alert loop and the lookups of the handlers\<close>

lemma alerts_loop_concat:
  "alerts_loop s rs results = results @ concat (map (rule_breaches s) rs)"
  by (induction rs arbitrary: results)
    (auto simp add: rule_breaches_def getInv_def Let_def split: option.splits)






section \<open>The claims\<close>

subsection \<open>Failures after a write\<close>

text \<open>
  Claim C1. A handler that answers with a failure has appended no ledger entry and has left
  every balance as it was. The handlers do otherwise in two places. The purchase loop
  looks each item up and writes it before it turns to the next one, so an unknown code in
  the second item is reported after the first item was written. The production handler
  looks the pack and liters products up only after it has written the raw and gallon
  entries, so a missing pack product is reported after three entries were written. Both
  runs are evaluated here on the example stores.
\<close>

theorem failure_after_partial_commit:
  "snd (purchases demo_db 7 [(''S'', 5), (''NOPE'', 1)]) = Inl (UnknownProduct ''NOPE'') \<and>
   inventoryTx demo_db = [] \<and>
   inventoryTx (fst (purchases demo_db 7 [(''S'', 5), (''NOPE'', 1)])) =
     [\<lparr>tx_txType = PURCHASE, tx_warehouseId = 10, tx_productId = 102, tx_qty = 5, tx_userId = 7\<rparr>] \<and>
   getInv demo_db 10 102 = 1000 \<and>
   getInv (fst (purchases demo_db 7 [(''S'', 5), (''NOPE'', 1)])) 10 102 = 1005 \<and>
   snd (production nopack_db 7 tp_body) = Inl (UnknownProduct ''TP_PACK_10'') \<and>
   inventoryTx nopack_db = [] \<and>
   inventoryTx (fst (production nopack_db 7 tp_body)) =
     [\<lparr>tx_txType = PRODUCTION, tx_warehouseId = 10, tx_productId = 101, tx_qty = - 106, tx_userId = 7\<rparr>,
      \<lparr>tx_txType = PRODUCTION, tx_warehouseId = 10, tx_productId = 102, tx_qty = - (304 / 5), tx_userId = 7\<rparr>,
      \<lparr>tx_txType = PRODUCTION, tx_warehouseId = 30, tx_productId = 103, tx_qty = - 20, tx_userId = 7\<rparr>] \<and>
   getInv nopack_db 10 101 = 1000 \<and>
   getInv (fst (production nopack_db 7 tp_body)) 10 101 = 894 \<and>
   getInv nopack_db 30 103 = 50 \<and>
   getInv (fst (production nopack_db 7 tp_body)) 30 103 = 30"
  by (simp add: eval_defs demo_db_def nopack_db_def tp_body_def)

text \<open>
  Claim C2. A purchase with a rejected item writes no entry and changes no balance for the
  whole batch. In the handler, an item of a type other than raw material or gallon is
  rejected when the loop reaches it, after the items before it were written: the run below
  answers with the rejection of the second item and leaves the first one in the ledger
  and in the balance.
\<close>

theorem purchase_batch_partial_commit:
  "purchases_schema [(''S'', 5), (''TP_PACK_10'', 1)] \<and>
   snd (purchases demo_db 7 [(''S'', 5), (''TP_PACK_10'', 1)]) =
     Inl (DisallowedPurchaseTarget ''TP_PACK_10'') \<and>
   inventoryTx demo_db = [] \<and>
   inventoryTx (fst (purchases demo_db 7 [(''S'', 5), (''TP_PACK_10'', 1)])) =
     [\<lparr>tx_txType = PURCHASE, tx_warehouseId = 10, tx_productId = 102, tx_qty = 5, tx_userId = 7\<rparr>] \<and>
   getInv demo_db 10 102 = 1000 \<and>
   getInv (fst (purchases demo_db 7 [(''S'', 5), (''TP_PACK_10'', 1)])) 10 102 = 1005"
  by (simp add: eval_defs demo_db_def)

subsection \<open>Production: what a successful run commits\<close>



subsection \<open>Balances and the ledger\<close>




subsection \<open>The liters check of a sale\<close>



subsection \<open>No negative stock\<close>

text \<open>
  Claim C6. From a store in which no balance is negative, a production or a sale that
  succeeds leaves no balance negative, and a production or a sale rejected for lack of
  stock (raw material, gallons, packs or liters) leaves the store as it was.
\<close>

theorem no_negative_stock:
  assumes "wf_db s" and "nonneg s"
  shows "(production s userId b = (s', Inr res) \<longrightarrow> nonneg s') \<and>
         (production s userId b = (s', Inl e) \<and> insufficiency e \<longrightarrow> s' = s) \<and>
         (sales s userId b = (t', Inr sres) \<longrightarrow> nonneg t') \<and>
         (sales s userId b = (t', Inl e) \<and> insufficiency e \<longrightarrow> t' = s)"
  using assms
  by (auto intro: production_success_nonneg sales_success_nonneg
      dest: production_insufficiency_unchanged sales_failure_unchanged)

text \<open>
  The production scenario, the shortfall scenario (50 kg of P where 106 are needed), a
  sale that succeeds and the sale scenario.
\<close>

theorem no_negative_stock_witness:
  "wf_db demo_db \<and> nonneg demo_db \<and> nonneg (fst (production demo_db 7 tp_body)) \<and>
   wf_db short_db \<and> nonneg short_db \<and>
   production short_db 7 tp_body = (short_db, Inl (InsufficientRawMaterial ''P'' 106 50)) \<and>
   wf_db sale_db \<and> nonneg sale_db \<and>
   nonneg (fst (sales sale_db 7 \<lparr>pb_productCode = ''TP'', pb_gallonSize = 10, pb_count = 4\<rparr>)) \<and>
   sales sale_db 7 \<lparr>pb_productCode = ''TP'', pb_gallonSize = 10, pb_count = 15\<rparr> =
     (sale_db, Inl (InsufficientPackagedStock 10 15))"
proof -
  let ?b = "\<lambda>n. \<lparr>pb_productCode = ''TP'', pb_gallonSize = 10, pb_count = n\<rparr>"
  have wf: "wf_db demo_db" "wf_db short_db" "wf_db sale_db"
    by (simp_all add: wf_db_def demo_db_def short_db_def sale_db_def)
  have nn: "nonneg demo_db" "nonneg short_db" "nonneg sale_db"
    by (simp_all add: nonneg_def getInv_def demo_db_def short_db_def sale_db_def)
  have "snd (production demo_db 7 tp_body) =
      Inr \<lparr>pr_productCode = ''TP'', pr_gallonSize = 10, pr_count = 20, pr_liters = 200,
           pr_consumed = [(''P'', 106), (''S'', 304 / 5)]\<rparr>"
    by (simp add: eval_defs demo_db_def tp_body_def)
  then have "production demo_db 7 tp_body =
      (fst (production demo_db 7 tp_body),
       Inr \<lparr>pr_productCode = ''TP'', pr_gallonSize = 10, pr_count = 20, pr_liters = 200,
            pr_consumed = [(''P'', 106), (''S'', 304 / 5)]\<rparr>)"
    by (simp add: prod_eq_iff)
  with no_negative_stock [OF wf(1) nn(1), where userId = 7 and b = tp_body
      and s' = "fst (production demo_db 7 tp_body)"]
  have 1: "nonneg (fst (production demo_db 7 tp_body))" by blast
  have "snd (production short_db 7 tp_body) = Inl (InsufficientRawMaterial ''P'' 106 50)"
    by (simp add: eval_defs demo_db_def short_db_def tp_body_def)
  then have "production short_db 7 tp_body =
      (fst (production short_db 7 tp_body), Inl (InsufficientRawMaterial ''P'' 106 50))"
    by (simp add: prod_eq_iff)
  with no_negative_stock [OF wf(2) nn(2), where userId = 7 and b = tp_body
      and s' = "fst (production short_db 7 tp_body)" and e = "InsufficientRawMaterial ''P'' 106 50"]
  have 2: "production short_db 7 tp_body = (short_db, Inl (InsufficientRawMaterial ''P'' 106 50))"
    by simp
  have "snd (sales sale_db 7 (?b 4)) =
      Inr \<lparr>sr_productCode = ''TP'', sr_gallonSize = 10, sr_count = 4, sr_liters = 40\<rparr>"
    by (simp add: eval_defs demo_db_def sale_db_def)
  then have "sales sale_db 7 (?b 4) =
      (fst (sales sale_db 7 (?b 4)),
       Inr \<lparr>sr_productCode = ''TP'', sr_gallonSize = 10, sr_count = 4, sr_liters = 40\<rparr>)"
    by (simp add: prod_eq_iff)
  with no_negative_stock [OF wf(3) nn(3), where userId = 7 and b = "?b 4"
      and t' = "fst (sales sale_db 7 (?b 4))"]
  have 3: "nonneg (fst (sales sale_db 7 (?b 4)))" by blast
  have "snd (sales sale_db 7 (?b 15)) = Inl (InsufficientPackagedStock 10 15)"
    by (simp add: eval_defs demo_db_def sale_db_def)
  then have "sales sale_db 7 (?b 15) =
      (fst (sales sale_db 7 (?b 15)), Inl (InsufficientPackagedStock 10 15))"
    by (simp add: prod_eq_iff)
  with no_negative_stock [OF wf(3) nn(3), where userId = 7 and b = "?b 15"
      and t' = "fst (sales sale_db 7 (?b 15))" and e = "InsufficientPackagedStock 10 15"]
  have 4: "sales sale_db 7 (?b 15) = (sale_db, Inl (InsufficientPackagedStock 10 15))"
    by simp
  from wf nn 1 2 3 4 show ?thesis by simp
qed

subsection \<open>Sales: rejection and commit\<close>



subsection \<open>Active alerts: which rules breach\<close>

text \<open>
  Claim C8, as stated: for every configured rule the evaluator takes the balance of the
  rule's pair, 0 when there is no balance row, and emits one record exactly when that
  quantity is strictly below the minimum. A rule on a product code that is not in the
  catalog has no balance row, and 0 is below its minimum of 10; the evaluator emits
  nothing for it.
\<close>

theorem unresolved_rule_no_breach:
  "alertRules ghost_db =
     [\<lparr>r_warehouseCode = ''RAW_WH'', r_productCode = ''GHOST'', r_minQty = 10\<rparr>] \<and>
   getProductByCode ghost_db ''GHOST'' = Inl (UnknownProduct ''GHOST'') \<and>
   inventory ghost_db = [(10, 101) \<mapsto> 1000, (10, 102) \<mapsto> 1000, (30, 103) \<mapsto> 50] \<and>
   (0::rat) < 10 \<and>
   alerts_active ghost_db = []"
  by (simp add: alerts_active_def getProductByCode_def ghost_db_def demo_db_def)

text \<open>
  Claim C8, as amended. The evaluator's answer is, rule by rule in table order, what
  \<open>rule_breaches\<close> says: for a rule whose warehouse and product codes resolve, one
  record with the current balance (0 when the pair has no row) and the minimum exactly
  when the balance is strictly below the minimum; nothing for a balance equal to the
  minimum or above it; nothing for a rule whose codes do not resolve.
\<close>

theorem alerts_active_breaches:
  "alerts_active s = concat (map (rule_breaches s) (alertRules s))"
  by (simp add: alerts_active_def alerts_loop_concat)

text \<open>
  The alert scenario: a balance of 9000 under a minimum of 10000 gives one record, a
  balance of 10000 none; with no balance row the current quantity is 0.
\<close>

theorem alerts_active_breaches_witness:
  "alerts_active (alert_db 9000) =
     [\<lparr>al_warehouse = ''raw materials'', al_product = ''S'', al_current = 9000, al_min = 10000,
       al_unit = ''kg''\<rparr>] \<and>
   alerts_active (alert_db 10000) = [] \<and>
   alerts_active fresh_db =
     [\<lparr>al_warehouse = ''raw materials'', al_product = ''S'', al_current = 0, al_min = 10000,
       al_unit = ''kg''\<rparr>]"
  using alerts_active_breaches [of "alert_db 9000"] alerts_active_breaches [of "alert_db 10000"]
    alerts_active_breaches [of fresh_db]
  by (simp add: rule_breaches_def getInv_def alert_db_def fresh_db_def demo_db_def)

subsection \<open>Lookups that do not resolve\<close>




subsection \<open>Frame\<close>

text \<open>
  Claim C10. A handler that succeeds leaves the catalog (warehouses, products, formulas)
  and the alert rules as they were and changes only the balances it names: a production
  only those of its formula's raw materials in the raw warehouse, of the size's gallon in
  the gallon warehouse and of the pack and liters products in the finished-goods
  warehouse; a sale only the latter two; a purchase only those of the products its items
  list, in the raw or the gallon warehouse.
\<close>

theorem handlers_frame:
  "(production s userId b = (s1, Inr pres) \<longrightarrow>
      same_catalog s s1 \<and>
      (\<forall>w p. getInv s1 w p \<noteq> getInv s w p \<longrightarrow>
         (\<exists>f \<in> set (formula_for s (pb_productCode b)). names_pair s ''RAW_WH'' (f_rawCode f) w p) \<or>
         names_pair s ''GAL_WH'' (gallon_code (pb_gallonSize b)) w p \<or>
         names_pair s ''FG_WH'' (pack_code (pb_productCode b) (pb_gallonSize b)) w p \<or>
         names_pair s ''FG_WH'' (liters_code (pb_productCode b)) w p)) \<and>
   (sales s userId b = (s2, Inr sres) \<longrightarrow>
      same_catalog s s2 \<and>
      (\<forall>w p. getInv s2 w p \<noteq> getInv s w p \<longrightarrow>
         names_pair s ''FG_WH'' (pack_code (pb_productCode b) (pb_gallonSize b)) w p \<or>
         names_pair s ''FG_WH'' (liters_code (pb_productCode b)) w p)) \<and>
   (purchases s userId items = (s3, Inr ures) \<longrightarrow>
      same_catalog s s3 \<and>
      (\<forall>w p. getInv s3 w p \<noteq> getInv s w p \<longrightarrow>
         (\<exists>it \<in> set items. names_pair s ''RAW_WH'' (fst it) w p \<or>
                            names_pair s ''GAL_WH'' (fst it) w p)))"
  using production_frame [of s userId b s1 pres] sales_frame [of s userId b s2 sres]
    purchases_frame [of s userId items s3 ures]
  by blast

text \<open>
  A production, a sale and a purchase that succeed on the example stores, each with a
  balance it does not name.
\<close>

theorem handlers_frame_witness:
  "snd (production demo_db 7 tp_body) =
     Inr \<lparr>pr_productCode = ''TP'', pr_gallonSize = 10, pr_count = 20, pr_liters = 200,
          pr_consumed = [(''P'', 106), (''S'', 304 / 5)]\<rparr> \<and>
   same_catalog demo_db (fst (production demo_db 7 tp_body)) \<and>
   getInv (fst (production demo_db 7 tp_body)) 20 103 = getInv demo_db 20 103 \<and>
   snd (sales sale_db 7 \<lparr>pb_productCode = ''TP'', pb_gallonSize = 10, pb_count = 4\<rparr>) =
     Inr \<lparr>sr_productCode = ''TP'', sr_gallonSize = 10, sr_count = 4, sr_liters = 40\<rparr> \<and>
   same_catalog sale_db
     (fst (sales sale_db 7 \<lparr>pb_productCode = ''TP'', pb_gallonSize = 10, pb_count = 4\<rparr>)) \<and>
   getInv (fst (sales sale_db 7 \<lparr>pb_productCode = ''TP'', pb_gallonSize = 10, pb_count = 4\<rparr>)) 10 101
     = getInv sale_db 10 101 \<and>
   snd (purchases demo_db 7 [(''S'', 5)]) = Inr () \<and>
   same_catalog demo_db (fst (purchases demo_db 7 [(''S'', 5)])) \<and>
   getInv (fst (purchases demo_db 7 [(''S'', 5)])) 10 101 = getInv demo_db 10 101 \<and>
   getInv (fst (purchases demo_db 7 [(''S'', 5)])) 30 103 = getInv demo_db 30 103"
proof -
  let ?b = "\<lparr>pb_productCode = ''TP'', pb_gallonSize = 10, pb_count = 4\<rparr>"
  let ?pres = "\<lparr>pr_productCode = ''TP'', pr_gallonSize = 10, pr_count = 20, pr_liters = 200,
          pr_consumed = [(''P'', 106), (''S'', 304 / 5)]\<rparr>"
  let ?sres = "\<lparr>sr_productCode = ''TP'', sr_gallonSize = 10, sr_count = 4, sr_liters = 40\<rparr>"
  have o1: "snd (production demo_db 7 tp_body) = Inr ?pres"
    by (simp add: eval_defs demo_db_def tp_body_def)
  then have r1: "production demo_db 7 tp_body = (fst (production demo_db 7 tp_body), Inr ?pres)"
    by (simp add: prod_eq_iff)
  have o2: "snd (sales sale_db 7 ?b) = Inr ?sres"
    by (simp add: eval_defs demo_db_def sale_db_def)
  then have r2: "sales sale_db 7 ?b = (fst (sales sale_db 7 ?b), Inr ?sres)"
    by (simp add: prod_eq_iff)
  have o3: "snd (purchases demo_db 7 [(''S'', 5)]) = Inr ()"
    by (simp add: eval_defs demo_db_def)
  then have r3: "purchases demo_db 7 [(''S'', 5)] = (fst (purchases demo_db 7 [(''S'', 5)]), Inr ())"
    by (simp add: prod_eq_iff)
  have n1: "\<not> names_pair demo_db ''RAW_WH'' c 20 103" "\<not> names_pair demo_db ''GAL_WH'' c 20 103"
    "\<not> names_pair demo_db ''FG_WH'' (pack_code ''TP'' 10) 20 103"
    "\<not> names_pair demo_db ''FG_WH'' (liters_code ''TP'') 20 103" for c
    by (simp_all add: names_pair_def getWarehouseId_def getProductByCode_def pack_code_def
        liters_code_def demo_db_def)
  have n2: "\<not> names_pair sale_db ''FG_WH'' c 10 101" for c
    by (simp add: names_pair_def getWarehouseId_def sale_db_def demo_db_def)
  have n3: "\<not> names_pair demo_db ''RAW_WH'' ''S'' 10 101" "\<not> names_pair demo_db ''GAL_WH'' ''S'' 10 101"
    "\<not> names_pair demo_db ''RAW_WH'' ''S'' 30 103" "\<not> names_pair demo_db ''GAL_WH'' ''S'' 30 103"
    by (simp_all add: names_pair_def getWarehouseId_def getProductByCode_def demo_db_def)
  from handlers_frame [where s = demo_db and userId = 7 and b = tp_body
      and ?s1.0 = "fst (production demo_db 7 tp_body)" and pres = ?pres
      and ?s2.0 = demo_db and sres = ?sres and items = "[]" and ?s3.0 = demo_db and ures = "()"] r1
  have f1: "same_catalog demo_db (fst (production demo_db 7 tp_body)) \<and>
      (\<forall>w p. getInv (fst (production demo_db 7 tp_body)) w p \<noteq> getInv demo_db w p \<longrightarrow>
         (\<exists>f \<in> set (formula_for demo_db (pb_productCode tp_body)).
            names_pair demo_db ''RAW_WH'' (f_rawCode f) w p) \<or>
         names_pair demo_db ''GAL_WH'' (gallon_code (pb_gallonSize tp_body)) w p \<or>
         names_pair demo_db ''FG_WH'' (pack_code (pb_productCode tp_body) (pb_gallonSize tp_body)) w p \<or>
         names_pair demo_db ''FG_WH'' (liters_code (pb_productCode tp_body)) w p)"
    by blast
  from f1 [THEN conjunct1] f1 [THEN conjunct2, rule_format, of 20 103] n1
  have 1: "same_catalog demo_db (fst (production demo_db 7 tp_body))"
    "getInv (fst (production demo_db 7 tp_body)) 20 103 = getInv demo_db 20 103"
    by (auto simp add: tp_body_def)
  from handlers_frame [where s = sale_db and userId = 7 and b = ?b
      and ?s2.0 = "fst (sales sale_db 7 ?b)" and sres = ?sres
      and ?s1.0 = demo_db and pres = ?pres and items = "[]" and ?s3.0 = demo_db and ures = "()"] r2
  have f2: "same_catalog sale_db (fst (sales sale_db 7 ?b)) \<and>
      (\<forall>w p. getInv (fst (sales sale_db 7 ?b)) w p \<noteq> getInv sale_db w p \<longrightarrow>
         names_pair sale_db ''FG_WH'' (pack_code (pb_productCode ?b) (pb_gallonSize ?b)) w p \<or>
         names_pair sale_db ''FG_WH'' (liters_code (pb_productCode ?b)) w p)"
    by blast
  from f2 [THEN conjunct1] f2 [THEN conjunct2, rule_format, of 10 101] n2
  have 2: "same_catalog sale_db (fst (sales sale_db 7 ?b))"
    "getInv (fst (sales sale_db 7 ?b)) 10 101 = getInv sale_db 10 101"
    by auto
  from handlers_frame [where s = demo_db and userId = 7 and items = "[(''S'', 5)]"
      and ?s3.0 = "fst (purchases demo_db 7 [(''S'', 5)])" and ures = "()"
      and b = tp_body and ?s1.0 = demo_db and pres = ?pres and ?s2.0 = demo_db and sres = ?sres] r3
  have f3: "same_catalog demo_db (fst (purchases demo_db 7 [(''S'', 5)])) \<and>
      (\<forall>w p. getInv (fst (purchases demo_db 7 [(''S'', 5)])) w p \<noteq> getInv demo_db w p \<longrightarrow>
         (\<exists>it \<in> set [(''S'', 5::rat)]. names_pair demo_db ''RAW_WH'' (fst it) w p \<or>
                            names_pair demo_db ''GAL_WH'' (fst it) w p))"
    by blast
  from f3 [THEN conjunct1] f3 [THEN conjunct2, rule_format, of 10 101]
    f3 [THEN conjunct2, rule_format, of 30 103] n3
  have 3: "same_catalog demo_db (fst (purchases demo_db 7 [(''S'', 5)]))"
    "getInv (fst (purchases demo_db 7 [(''S'', 5)])) 10 101 = getInv demo_db 10 101"
    "getInv (fst (purchases demo_db 7 [(''S'', 5)])) 30 103 = getInv demo_db 30 103"
    by auto
  from o1 o2 o3 1 2 3 show ?thesis by simp
qed

end
